theory Spec2Isabelle
  imports Main
begin

section \<open>MailStore API wrapper: the token handling of \<open>mailstore/server.py\<close> and \<open>mailstore/spe.py\<close>\<close>

text \<open>
  The two client classes (\<open>mailstore.server.Client\<close> and \<open>mailstore.spe.Client\<close>) share
  the text of their private methods \<open>__logprint\<close>, \<open>__hasToken\<close>, \<open>__handleToken\<close>,
  \<open>__callMethod\<close> and of the public \<open>GetStatus\<close> and \<open>CancelAsync\<close>; they differ in the
  default port and in the wrapped operations. The embedding below therefore has one copy of
  these methods, taking the client object \<open>self\<close> as a record.
\<close>

subsection \<open>Python values\<close>

text \<open>
  What \<open>json.loads\<close> returns, and what the wrapped operations put into their argument
  dictionaries: \<open>None\<close>, booleans, integers, strings, lists and dictionaries with string keys.
  A dictionary is an association list in insertion order. JSON numbers with a fraction
  (Python floats) are not part of the model.
\<close>

datatype pyval =
    PyNone
  | PyBool bool
  | PyInt int
  | PyStr string
  | PyList "pyval list"
  | PyDict "(string \<times> pyval) list"

text \<open>
  The exceptions that the modelled code can raise or pass on. \<open>HTTPError code msg method\<close>
  is \<open>urllib.error.HTTPError\<close> with the fields that \<open>__callMethod\<close> reads; \<open>PyException\<close>
  stands for any other exception of the Python library or of a user callback.

  Modelled from the spec: the module \<open>mailstore/errors.py\<close> is not among the sources; its
  two exception classes \<open>MailStoreBaseError\<close> (wrapping another exception) and
  \<open>MailStoreNoTokenError\<close> (the spec's \<open>NoTokenError\<close>, carrying the offending response)
  are taken as plain constructors.
\<close>

datatype exn =
    KeyError pyval
  | TypeError
  | AttributeError
  | HTTPError int string string
  | PyException string
  | MailStoreBaseError exn
  | MailStoreNoTokenError pyval

text \<open>Truthiness, as used by \<open>if x\<close>.\<close>

fun truthy :: "pyval \<Rightarrow> bool" where
  "truthy PyNone = False"
| "truthy (PyBool b) = b"
| "truthy (PyInt i) = (i \<noteq> 0)"
| "truthy (PyStr s) = (s \<noteq> [])"
| "truthy (PyList xs) = (xs \<noteq> [])"
| "truthy (PyDict kvs) = (kvs \<noteq> [])"

fun startswith :: "string \<Rightarrow> string \<Rightarrow> bool" where
  "startswith [] t = True"
| "startswith (c # s) [] = False"
| "startswith (c # s) (d # t) = (c = d \<and> startswith s t)"

fun is_substring :: "string \<Rightarrow> string \<Rightarrow> bool" where
  "is_substring s [] = (s = [])"
| "is_substring s (c # t) = (startswith s (c # t) \<or> is_substring s t)"

text \<open>\<open>key in obj\<close> for a string key: membership in a dictionary's keys, in a list's elements,
  substring test on a string, \<open>TypeError\<close> on everything else.\<close>

fun py_contains :: "string \<Rightarrow> pyval \<Rightarrow> exn + bool" where
  "py_contains k (PyDict kvs) = Inr (map_of kvs k \<noteq> None)"
| "py_contains k (PyList xs) = Inr (PyStr k \<in> set xs)"
| "py_contains k (PyStr s) = Inr (is_substring k s)"
| "py_contains k PyNone = Inl TypeError"
| "py_contains k (PyBool b) = Inl TypeError"
| "py_contains k (PyInt i) = Inl TypeError"

text \<open>\<open>obj[key]\<close> for a string key: \<open>KeyError\<close> on a dictionary without the key, \<open>TypeError\<close>
  on every value that is not a dictionary.\<close>

fun py_getitem :: "pyval \<Rightarrow> string \<Rightarrow> exn + pyval" where
  "py_getitem (PyDict kvs) k = (case map_of kvs k of None \<Rightarrow> Inl (KeyError (PyStr k)) | Some v \<Rightarrow> Inr v)"
| "py_getitem PyNone k = Inl TypeError"
| "py_getitem (PyBool b) k = Inl TypeError"
| "py_getitem (PyInt i) k = Inl TypeError"
| "py_getitem (PyStr s) k = Inl TypeError"
| "py_getitem (PyList xs) k = Inl TypeError"

text \<open>\<open>s + v\<close> with a string on the left: concatenation when \<open>v\<close> is a string, \<open>TypeError\<close>
  otherwise.\<close>

fun str_add :: "string \<Rightarrow> pyval \<Rightarrow> exn + string" where
  "str_add s (PyStr t) = Inr (s @ t)"
| "str_add s PyNone = Inl TypeError"
| "str_add s (PyBool b) = Inl TypeError"
| "str_add s (PyInt i) = Inl TypeError"
| "str_add s (PyList xs) = Inl TypeError"
| "str_add s (PyDict kvs) = Inl TypeError"

text \<open>Decimal digits of a number, as \<open>str\<close> prints an integer.\<close>

fun str_nat :: "nat \<Rightarrow> string" where
  "str_nat n = (if n < 10 then [''0123456789'' ! n]
                else str_nat (n div 10) @ [''0123456789'' ! (n mod 10)])"

definition str_int :: "int \<Rightarrow> string" where
  "str_int i = (if i < 0 then CHR ''-'' # str_nat (nat (- i)) else str_nat (nat i))"

fun join :: "string \<Rightarrow> string list \<Rightarrow> string" where
  "join sep [] = []"
| "join sep [x] = x"
| "join sep (x # y # ys) = x @ sep @ join sep (y # ys)"

text \<open>
  \<open>repr\<close> of a string: in double quotes when the string holds a single quote and no double
  quote, else in single quotes; the quote in use and the backslash are escaped with a
  backslash, tab, line feed and carriage return are written \<open>\t\<close>, \<open>\n\<close>, \<open>\r\<close>, and every
  other control character of ASCII as \<open>\xhh\<close>. A \<open>string\<close> here is the UTF-8 text, so a
  character beyond ASCII is several \<open>char\<close>s; they are left as they are, which is what
  \<open>repr\<close> does with the printable characters beyond ASCII.
\<close>

definition repr_quote :: "string \<Rightarrow> char" where
  "repr_quote s = (if CHR 0x27 \<in> set s \<and> CHR 0x22 \<notin> set s then CHR 0x22 else CHR 0x27)"

definition hex2 :: "nat \<Rightarrow> string" where
  "hex2 n = [''0123456789abcdef'' ! (n div 16 mod 16), ''0123456789abcdef'' ! (n mod 16)]"

definition repr_char :: "char \<Rightarrow> char \<Rightarrow> string" where
  "repr_char q c =
     (if c = q \<or> c = CHR 0x5C then [CHR 0x5C, c]
      else if c = CHR 0x09 then [CHR 0x5C, CHR ''t'']
      else if c = CHR 0x0A then [CHR 0x5C, CHR ''n'']
      else if c = CHR 0x0D then [CHR 0x5C, CHR ''r'']
      else if of_char c < (32 :: nat) \<or> c = CHR 0x7F then [CHR 0x5C, CHR ''x''] @ hex2 (of_char c)
      else [c])"

definition repr_str :: "string \<Rightarrow> string" where
  "repr_str s = repr_quote s # concat (map (repr_char (repr_quote s)) s) @ [repr_quote s]"

text \<open>\<open>repr\<close> of a value, and \<open>str\<close>, which differs from it on a string only.\<close>

fun py_repr :: "pyval \<Rightarrow> string" where
  "py_repr PyNone = ''None''"
| "py_repr (PyBool b) = (if b then ''True'' else ''False'')"
| "py_repr (PyInt i) = str_int i"
| "py_repr (PyStr s) = repr_str s"
| "py_repr (PyList xs) = ''['' @ join '', '' (map py_repr xs) @ '']''"
| "py_repr (PyDict kvs) =
     ''{'' @ join '', '' (map (\<lambda>(k, v). repr_str k @ '': '' @ py_repr v) kvs) @ ''}''"

definition py_str :: "pyval \<Rightarrow> string" where
  "py_str v = (case v of PyStr s \<Rightarrow> s | _ \<Rightarrow> py_repr v)"

subsection \<open>The client object and the world around it\<close>

text \<open>
  \<open>callbackStatus\<close> is either not callable (the default \<open>None\<close>) or a callable object; the
  code reads its \<open>__name__\<close> (absent on some callables) and calls it with the current
  response. A callback is an observer here: it returns, or raises an exception.
\<close>

datatype callback =
    NotCallable
  | Callable "string option" "pyval \<Rightarrow> exn option"

record client =
  username :: string
  password :: string
  host :: string
  port :: int
  autoHandleToken :: bool
  waitTime :: int
  callbackStatus :: callback
  logLevel :: int

text \<open>The two constructors, with their defaults.\<close>

definition server_Client :: client where
  "server_Client = \<lparr>username = ''admin'', password = ''admin'', host = ''127.0.0.1'', port = 8463,
     autoHandleToken = True, waitTime = 1000, callbackStatus = NotCallable, logLevel = 2\<rparr>"

definition spe_Client :: client where
  "spe_Client = \<lparr>username = ''admin'', password = ''admin'', host = ''127.0.0.1'', port = 8474,
     autoHandleToken = True, waitTime = 1000, callbackStatus = NotCallable, logLevel = 2\<rparr>"

text \<open>
  One HTTP POST: the address and the sequence of key/value pairs handed to
  \<open>urllib.parse.urlencode\<close> (its percent-encoding is not modelled).
\<close>

record request =
  url :: string
  data :: "(string \<times> pyval) list"

text \<open>
  What one \<open>urlopen\<close> followed by \<open>read\<close>, \<open>decode\<close> and \<open>json.loads\<close> can do:
  \<open>urlopen\<close> raises; the body cannot be read or decoded (the exception leaves
  \<open>__callMethod\<close> as it is); or there is a decoded text with its JSON value.
\<close>

datatype response =
    Raises exn
  | Undecodable exn
  | Body string pyval

text \<open>
  An argument of a log call: a string, a value, the form data (a urlencoded text in the
  source), or one string that \<open>format\<close> builds from such parts with a space between them
  (the \<open>exceptionString\<close> of line 143).
\<close>

datatype log_arg =
    LStr string
  | LVal pyval
  | LForm "(string \<times> pyval) list"
  | LFormat "log_arg list"

text \<open>
  The world: the remote end (its answer to a request may depend on the requests made before),
  and the three observable traces: requests sent, callback invocations, lines printed.
\<close>

record world =
  remote :: "request list \<Rightarrow> request \<Rightarrow> response"
  requests :: "request list"
  callbacks :: "pyval list"
  logged :: "(string \<times> log_arg list) list"

text \<open>
  A method run takes the world and, unless it runs forever (\<open>None\<close>), ends by returning a
  value or by raising, in a new world.
\<close>

type_synonym 'a run = "world \<Rightarrow> ((exn + 'a) \<times> world) option"

definition return_run :: "'a \<Rightarrow> 'a run" where
  "return_run a = (\<lambda>w. Some (Inr a, w))"

definition raise_run :: "exn \<Rightarrow> 'a run" where
  "raise_run e = (\<lambda>w. Some (Inl e, w))"

definition diverge :: "'a run" where
  "diverge = (\<lambda>w. None)"

definition lift_run :: "exn + 'a \<Rightarrow> 'a run" where
  "lift_run r = (\<lambda>w. Some (r, w))"

definition bind_run :: "'a run \<Rightarrow> ('a \<Rightarrow> 'b run) \<Rightarrow> 'b run" where
  "bind_run m f = (\<lambda>w. case m w of
       None \<Rightarrow> None
     | Some (Inl e, w') \<Rightarrow> Some (Inl e, w')
     | Some (Inr a, w') \<Rightarrow> f a w')"

definition bind_exn :: "exn + 'a \<Rightarrow> ('a \<Rightarrow> exn + 'b) \<Rightarrow> exn + 'b" where
  "bind_exn r f = (case r of Inl e \<Rightarrow> Inl e | Inr a \<Rightarrow> f a)"

definition urlopen :: "request \<Rightarrow> response run" where
  "urlopen req = (\<lambda>w. Some (Inr (remote w (requests w) req), w\<lparr>requests := requests w @ [req]\<rparr>))"

definition call :: "(pyval \<Rightarrow> exn option) \<Rightarrow> pyval \<Rightarrow> unit run" where
  "call f v = (\<lambda>w. Some ((case f v of None \<Rightarrow> Inr () | Some e \<Rightarrow> Inl e),
                          w\<lparr>callbacks := callbacks w @ [v]\<rparr>))"

subsection \<open>Private methods\<close>

definition logLevels :: "(int \<times> string) list" where
  "logLevels = [(0, ''NONE''), (1, ''ERROR''), (2, ''WARNING''), (3, ''INFO''), (4, ''DEBUG'')]"

definition logprint :: "client \<Rightarrow> int \<Rightarrow> log_arg list \<Rightarrow> unit run" where
  "logprint self lvl args =
     (if lvl \<le> logLevel self then
        (case map_of logLevels lvl of
           None \<Rightarrow> raise_run (KeyError (PyInt lvl))
         | Some name \<Rightarrow> (\<lambda>w. Some (Inr (), w\<lparr>logged := logged w @ [(name, args)]\<rparr>)))
      else return_run ())"

text \<open>The condition of \<open>__hasToken\<close>, with the short-circuit order of \<open>and\<close>.\<close>

definition hasToken_cond :: "pyval \<Rightarrow> exn + bool" where
  "hasToken_cond jsonValues =
     bind_exn (py_contains ''token'' jsonValues) (\<lambda>c1.
       if \<not> c1 then Inr False
       else bind_exn (py_getitem jsonValues ''token'') (\<lambda>t.
         if t = PyNone then Inr False
         else py_contains ''statusVersion'' jsonValues))"

text \<open>The message of the true branch; it is built before \<open>__logprint\<close> looks at the level.\<close>

definition hasToken_msg :: "pyval \<Rightarrow> exn + string" where
  "hasToken_msg jsonValues =
     bind_exn (py_getitem jsonValues ''token'') (\<lambda>t.
     bind_exn (str_add ''__hasToken: Status token '' t) (\<lambda>s.
     bind_exn (py_getitem jsonValues ''statusVersion'') (\<lambda>v.
       Inr (s @ '' detected. statusVersion is '' @ py_str v))))"

definition hasToken :: "client \<Rightarrow> pyval \<Rightarrow> bool run" where
  "hasToken self jsonValues =
     bind_run (lift_run (hasToken_cond jsonValues)) (\<lambda>c.
       if c then
         bind_run (lift_run (hasToken_msg jsonValues)) (\<lambda>m.
         bind_run (logprint self 3 [LStr m]) (\<lambda>_.
         return_run True))
       else
         bind_run (logprint self 3 [LStr ''__hasToken: No status token detected'']) (\<lambda>_.
         return_run False))"

text \<open>The guarded callback invocation, which \<open>__handleToken\<close> has twice (\<open>which\<close> is
  \<open>first\<close> or \<open>refreshed\<close>).\<close>

definition run_callback :: "client \<Rightarrow> string \<Rightarrow> pyval \<Rightarrow> unit run" where
  \<open>run_callback self which jsonValues =
     (case callbackStatus self of
        NotCallable \<Rightarrow> return_run ()
      | Callable name f \<Rightarrow>
          bind_run (lift_run (case name of
                                None \<Rightarrow> Inl AttributeError
                              | Some s \<Rightarrow> Inr (''__handleToken: Executing callback function "'' @ s
                                                @ ''" for '' @ which @ '' status.''))) (\<lambda>m.
          bind_run (logprint self 3 [LStr m]) (\<lambda>_.
          call f jsonValues)))\<close>

definition token_msg :: "string \<Rightarrow> pyval \<Rightarrow> string \<Rightarrow> exn + string" where
  "token_msg before jsonValues after =
     bind_exn (py_getitem jsonValues ''token'') (\<lambda>t.
     bind_exn (str_add before t) (\<lambda>s. Inr (s @ after)))"

text \<open>
  \<open>__callMethod\<close>, lines 131 to 153: the address and the form data, the three log lines,
  the POST with its two \<open>except\<close> clauses, and the decoding of the body. Each key of
  \<open>arguments\<close> is kept when its value is truthy (the keys of a dictionary are distinct, so
  looking each key up again is the same as filtering the pairs).
\<close>

definition callMethod_request :: "client \<Rightarrow> string \<Rightarrow> (string \<times> pyval) list \<Rightarrow> string \<Rightarrow> pyval run" where
  \<open>callMethod_request self method arguments mode =
     (let url' = ''https://'' @ host self @ '':'' @ str_int (port self) @ ''/api/'' @ mode @ ''/'' @ method;
          data' = filter (\<lambda>(key, v). truthy v) arguments
      in
      bind_run (logprint self 4 [LStr ''__callMethod: METHOD:'', LStr method]) (\<lambda>_.
      bind_run (logprint self 4 [LStr ''__callMethod: ARGUMENTS:'', LVal (PyDict arguments)]) (\<lambda>_.
      bind_run (logprint self 3 [LStr ''__callMethod: HTTP POST:'', LStr url', LForm data']) (\<lambda>_.
      bind_run (urlopen \<lparr>url = url', data = data'\<rparr>) (\<lambda>response.
      case response of
        Raises e \<Rightarrow>
          (case e of
             HTTPError code msg meth \<Rightarrow>
               bind_run (logprint self 1 [LFormat [LStr (str_int code), LStr msg, LStr url', LStr meth,
                                                    LForm data']]) (\<lambda>_.
               raise_run e)
           | _ \<Rightarrow>
               bind_run (logprint self 1 [LStr ''Unhandled Exception'']) (\<lambda>_.
               raise_run (MailStoreBaseError e)))
      | Undecodable e \<Rightarrow> raise_run e
      | Body decodedValues jsonValues \<Rightarrow>
          bind_run (logprint self 4 [LStr ''__callMethod: HTTP RESPONSE:'', LStr decodedValues]) (\<lambda>_.
          return_run jsonValues))))))\<close>

text \<open>\<open>__callMethod\<close>, lines 168 to 171.\<close>

definition callMethod_return :: "client \<Rightarrow> string \<Rightarrow> pyval \<Rightarrow> pyval run" where
  \<open>callMethod_return self method returnData =
     bind_run (logprint self 3 [LStr (''__callMethod: Returning data to caller "'' @ method @ ''"'')]) (\<lambda>_.
     bind_run (logprint self 4 [LStr ''__callMethod: '', LVal returnData]) (\<lambda>_.
     return_run returnData))\<close>

text \<open>The log lines of lines 160 and 163, of line 112 and of line 121.\<close>

definition log_token_handling :: "client \<Rightarrow> bool \<Rightarrow> unit run" where
  "log_token_handling self enabled =
     logprint self 3 [LStr (''__callMethod: Automatic token handling is ''
                            @ (if enabled then ''ENABLED.'' else ''DISABLED.''))]"

definition log_refreshing :: "client \<Rightarrow> pyval \<Rightarrow> unit run" where
  "log_refreshing self jsonValues =
     bind_run (lift_run (token_msg ''__handleToken: Refreshing status for task with token '' jsonValues ''.'')) (\<lambda>m.
     logprint self 3 [LStr m])"

definition log_finished :: "client \<Rightarrow> pyval \<Rightarrow> unit run" where
  "log_finished self jsonValues =
     bind_run (lift_run (token_msg ''__handleToken: Task with token '' jsonValues '' finished.'')) (\<lambda>m.
     logprint self 3 [LStr m])"

text \<open>The argument dictionary of the \<open>get-status\<close> call (lines 186 and 187).\<close>

definition GetStatus_arguments :: "pyval \<Rightarrow> int \<Rightarrow> exn + (string \<times> pyval) list" where
  "GetStatus_arguments jsonValues waitTime' =
     bind_exn (py_getitem jsonValues ''statusVersion'') (\<lambda>v.
     bind_exn (py_getitem jsonValues ''token'') (\<lambda>t.
     Inr [(''token'', t), (''millisecondsTimeout'', PyInt waitTime'),
          (''lastKnownStatusVersion'', PyStr (py_str v))]))"

text \<open>The \<open>else\<close> branch that \<open>GetStatus\<close> and \<open>CancelAsync\<close> share, up to the message.\<close>

definition no_token :: "client \<Rightarrow> string \<Rightarrow> pyval \<Rightarrow> pyval run" where
  "no_token self m jsonValues =
     bind_run (logprint self 1 [LStr m]) (\<lambda>_. raise_run (MailStoreNoTokenError jsonValues))"

text \<open>
  \<open>__callMethod\<close>, \<open>__handleToken\<close> with its \<open>while\<close> loop, and \<open>GetStatus\<close> call each
  other. The loop has no bound in the source, so the functions take fuel: one unit for each
  status refresh of the loop, and a loop that wants one more refresh than there is fuel has
  not returned (\<open>diverge\<close>). The optional parameters \<open>autoHandleToken\<close> and \<open>waitTime\<close>
  are options, \<open>None\<close> being the default \<open>None\<close> of the source; \<open>__handleToken\<close> tests
  \<open>waitTime is not None\<close>, \<open>GetStatus\<close> tests the truth of \<open>waitTime\<close>.
\<close>

function callMethod :: "nat \<Rightarrow> client \<Rightarrow> string \<Rightarrow> (string \<times> pyval) list \<Rightarrow> string \<Rightarrow> bool option \<Rightarrow> pyval run"
and handleToken :: "nat \<Rightarrow> client \<Rightarrow> pyval \<Rightarrow> int option \<Rightarrow> pyval run"
and handleToken_while :: "nat \<Rightarrow> client \<Rightarrow> int \<Rightarrow> pyval \<Rightarrow> pyval run"
and GetStatus :: "nat \<Rightarrow> client \<Rightarrow> pyval \<Rightarrow> int option \<Rightarrow> pyval run"
where
  "callMethod n self method arguments mode autoHandleToken' =
     bind_run (callMethod_request self method arguments mode) (\<lambda>jsonValues.
     bind_run (hasToken self jsonValues) (\<lambda>has.
     bind_run
       (if has then
          (if (case autoHandleToken' of Some b \<Rightarrow> b | None \<Rightarrow> autoHandleToken self) then
             bind_run (log_token_handling self True) (\<lambda>_. handleToken n self jsonValues None)
           else
             bind_run (log_token_handling self False) (\<lambda>_. return_run jsonValues))
        else return_run jsonValues)
       (callMethod_return self method)))"
| "handleToken n self jsonValues waitTime' =
     bind_run (run_callback self ''first'' jsonValues) (\<lambda>_.
     handleToken_while n self (case waitTime' of Some t \<Rightarrow> t | None \<Rightarrow> waitTime self) jsonValues)"
| "handleToken_while n self waitTime' jsonValues =
     bind_run (lift_run (py_getitem jsonValues ''statusCode'')) (\<lambda>statusCode.
       if statusCode = PyStr ''running'' then
         bind_run (log_refreshing self jsonValues) (\<lambda>_.
         case n of
           0 \<Rightarrow> diverge
         | Suc k \<Rightarrow>
             bind_run (GetStatus k self jsonValues (Some waitTime')) (\<lambda>jsonValues'.
             bind_run (logprint self 4 [LStr ''__handleToken:'', LVal jsonValues']) (\<lambda>_.
             bind_run (run_callback self ''refreshed'' jsonValues') (\<lambda>_.
             handleToken_while k self waitTime' jsonValues'))))
       else
         bind_run (log_finished self jsonValues) (\<lambda>_. return_run jsonValues))"
| "GetStatus n self jsonValues waitTime' =
     bind_run (hasToken self jsonValues) (\<lambda>has.
       if has then
         bind_run (lift_run (GetStatus_arguments jsonValues
             (case waitTime' of Some t \<Rightarrow> if t \<noteq> 0 then t else waitTime self
                              | None \<Rightarrow> waitTime self))) (\<lambda>arguments.
         callMethod n self ''get-status'' arguments '''' (Some False))
       else
         no_token self ''GetStatus: Cannot get status, no token found!'' jsonValues)"
  by pat_completeness auto
termination
  by (relation "measure (\<lambda>x. case x of
        Inl (Inl (n, _)) \<Rightarrow> 4 * n + 2
      | Inl (Inr (n, _)) \<Rightarrow> 4 * n + 1
      | Inr (Inl (n, _)) \<Rightarrow> 4 * n
      | Inr (Inr (n, _)) \<Rightarrow> 4 * n + 3)") auto

declare callMethod.simps [simp del] handleToken.simps [simp del]
  handleToken_while.simps [simp del] GetStatus.simps [simp del] str_nat.simps [simp del]

subsection \<open>Public methods\<close>

definition CancelAsync :: "nat \<Rightarrow> client \<Rightarrow> pyval \<Rightarrow> pyval run" where
  "CancelAsync n self jsonValues =
     bind_run (hasToken self jsonValues) (\<lambda>has.
       if has then
         bind_run (lift_run (py_getitem jsonValues ''token'')) (\<lambda>t.
         callMethod n self ''cancel-async'' [(''token'', t)] '''' None)
       else
         no_token self ''CancelAsync: Cannot cancel, no token found!'' jsonValues)"

text \<open>Three of the wrapped operations: \<open>GetChildFolders\<close> and \<open>GetProfiles\<close> of
  \<open>server.py\<close>, \<open>GetChildFolders\<close> of \<open>spe.py\<close>.\<close>

definition server_GetChildFolders :: "nat \<Rightarrow> client \<Rightarrow> pyval \<Rightarrow> pyval \<Rightarrow> bool option \<Rightarrow> pyval run" where
  "server_GetChildFolders n self folder maxLevels autoHandleToken' =
     callMethod n self ''GetChildFolders'' [(''folder'', folder), (''maxLevels'', maxLevels)]
       ''invoke'' autoHandleToken'"

definition server_GetProfiles :: "nat \<Rightarrow> client \<Rightarrow> pyval \<Rightarrow> bool option \<Rightarrow> pyval run" where
  "server_GetProfiles n self raw autoHandleToken' =
     callMethod n self ''GetProfiles'' [(''raw'', raw)] ''invoke'' autoHandleToken'"

definition spe_GetChildFolders :: "nat \<Rightarrow> client \<Rightarrow> pyval \<Rightarrow> pyval \<Rightarrow> pyval \<Rightarrow> bool option \<Rightarrow> pyval run" where
  "spe_GetChildFolders n self instanceID folder maxLevels autoHandleToken' =
     callMethod n self ''GetChildFolders''
       [(''instanceID'', instanceID), (''folder'', folder), (''maxLevels'', maxLevels)]
       ''invoke'' autoHandleToken'"

text \<open>A remote end that answers the \<open>i\<close>-th request with the \<open>i\<close>-th entry of a script, as a
  mock of the transport does; used for the concrete runs below.\<close>

definition scripted :: "response list \<Rightarrow> request list \<Rightarrow> request \<Rightarrow> response" where
  "scripted rs h req =
     (if length h < length rs then rs ! length h else Raises (PyException ''no more responses''))"

definition fresh :: "response list \<Rightarrow> world" where
  "fresh rs = \<lparr>remote = scripted rs, requests = [], callbacks = [], logged = []\<rparr>"

text \<open>The three responses of the scenario of the specification: the initial response and
  the two status refreshes.\<close>

definition scenario_initial :: pyval where
  "scenario_initial = PyDict [(''statusCode'', PyStr ''running''), (''token'', PyStr ''T1''),
                              (''statusVersion'', PyInt 1)]"

definition scenario_refresh1 :: pyval where
  "scenario_refresh1 = PyDict [(''statusCode'', PyStr ''running''), (''token'', PyStr ''T1''),
                               (''statusVersion'', PyInt 2)]"

definition scenario_refresh2 :: pyval where
  "scenario_refresh2 = PyDict [(''statusCode'', PyStr ''completed''), (''token'', PyStr ''T1''),
                               (''statusVersion'', PyInt 3), (''result'', PyDict [(''id'', PyInt 42)])]"


text \<open>
  The iterations of the \<open>while\<close> loop of \<open>__handleToken\<close>. A state of the loop is the fuel
  left, the current response and the world; \<open>iterates self waitTime s s'\<close> says that the loop
  started in \<open>s\<close> is in \<open>s'\<close> after some number of complete iterations, each of which found
  the response \<open>running\<close>, refreshed it with \<open>GetStatus\<close>, and called the callback, none of
  them raising.
\<close>

inductive iterates :: "client \<Rightarrow> int \<Rightarrow> nat \<times> pyval \<times> world \<Rightarrow> nat \<times> pyval \<times> world \<Rightarrow> bool"
  for self :: client and waitTime' :: int
where
  start: "iterates self waitTime' s s"
| refresh:
    "iterates self waitTime' s (Suc n, jsonValues, w) \<Longrightarrow>
     py_getitem jsonValues ''statusCode'' = Inr (PyStr ''running'') \<Longrightarrow>
     log_refreshing self jsonValues w = Some (Inr (), w1) \<Longrightarrow>
     GetStatus n self jsonValues (Some waitTime') w1 = Some (Inr jsonValues', w2) \<Longrightarrow>
     logprint self 4 [LStr ''__handleToken:'', LVal jsonValues'] w2 = Some (Inr (), w3) \<Longrightarrow>
     run_callback self ''refreshed'' jsonValues' w3 = Some (Inr (), w4) \<Longrightarrow>
     iterates self waitTime' s (n, jsonValues', w4)"

text \<open>Two worlds that differ at most in the lines printed.\<close>

definition log_only :: "world \<Rightarrow> world \<Rightarrow> bool" where
  "log_only w w' = (remote w' = remote w \<and> requests w' = requests w \<and> callbacks w' = callbacks w)"

text \<open>A run that only ever appends to the list of requests sent.\<close>

definition grows :: "'a run \<Rightarrow> bool" where
  "grows m = (\<forall>w r w'. m w = Some (r, w') \<longrightarrow> (\<exists>rest. requests w' = requests w @ rest))"

section \<open>Properties\<close>

subsection \<open>Running the primitives\<close>

lemma logprint_1:
  "logprint self 1 args w =
     Some (Inr (), w\<lparr>logged := logged w @ (if 1 \<le> logLevel self then [(''ERROR'', args)] else [])\<rparr>)"
  by (simp add: logprint_def logLevels_def return_run_def)

lemma logprint_3:
  "logprint self 3 args w =
     Some (Inr (), w\<lparr>logged := logged w @ (if 3 \<le> logLevel self then [(''INFO'', args)] else [])\<rparr>)"
  by (simp add: logprint_def logLevels_def return_run_def)

lemma logprint_4:
  "logprint self 4 args w =
     Some (Inr (), w\<lparr>logged := logged w @ (if 4 \<le> logLevel self then [(''DEBUG'', args)] else [])\<rparr>)"
  by (simp add: logprint_def logLevels_def return_run_def)

lemmas logprint_run = logprint_1 logprint_3 logprint_4

text \<open>\<open>__hasToken\<close> is decided by its condition and by the message of its true branch; the
  world only gains a log line.\<close>

lemma hasToken_run:
  "hasToken self jsonValues w =
     (case hasToken_cond jsonValues of
        Inl e \<Rightarrow> Some (Inl e, w)
      | Inr False \<Rightarrow> Some (Inr False, w\<lparr>logged := logged w @
            (if 3 \<le> logLevel self then [(''INFO'', [LStr ''__hasToken: No status token detected''])] else [])\<rparr>)
      | Inr True \<Rightarrow>
          (case hasToken_msg jsonValues of
             Inl e \<Rightarrow> Some (Inl e, w)
           | Inr m \<Rightarrow> Some (Inr True, w\<lparr>logged := logged w @
               (if 3 \<le> logLevel self then [(''INFO'', [LStr m])] else [])\<rparr>)))"
  by (simp add: hasToken_def bind_run_def lift_run_def return_run_def logprint_3
           split: sum.splits bool.splits)

lemma hasToken_traces:
  assumes "hasToken self jsonValues w = Some (r, w')"
  shows "remote w' = remote w \<and> requests w' = requests w \<and> callbacks w' = callbacks w"
  using assms by (auto simp: hasToken_run split: sum.splits bool.splits)

lemma hasToken_any_world:
  assumes "hasToken self jsonValues w = Some (r, w')"
  shows "\<exists>v'. hasToken self jsonValues v = Some (r, v')"
  using assms by (auto simp: hasToken_run split: sum.splits bool.splits)

lemma no_token_run:
  "no_token self m jsonValues w =
     Some (Inl (MailStoreNoTokenError jsonValues),
           w\<lparr>logged := logged w @ (if 1 \<le> logLevel self then [(''ERROR'', [LStr m])] else [])\<rparr>)"
  by (simp add: no_token_def bind_run_def logprint_1 raise_run_def)

text \<open>The rules that evaluate a run on concrete input.\<close>

lemmas run_simps =
  bind_run_def return_run_def raise_run_def lift_run_def diverge_def urlopen_def call_def
  logprint_run callMethod_request_def callMethod_return_def log_token_handling_def
  log_refreshing_def log_finished_def hasToken_run hasToken_cond_def hasToken_msg_def
  token_msg_def bind_exn_def run_callback_def GetStatus_arguments_def no_token_def
  py_str_def scripted_def fresh_def Let_def str_int_def str_nat.simps
  callMethod.simps handleToken.simps handleToken_while.simps GetStatus.simps

lemmas scenario_defs = scenario_initial_def scenario_refresh1_def scenario_refresh2_def

lemma log_only_refl [simp]: "log_only w w"
  by (simp add: log_only_def)

lemma log_only_logged [simp]: "log_only w (w\<lparr>logged := l\<rparr>)"
  by (simp add: log_only_def)

lemma log_only_trans: "log_only w w1 \<Longrightarrow> log_only w1 w2 \<Longrightarrow> log_only w w2"
  by (simp add: log_only_def)

lemma callMethod_return_run:
  "\<exists>w'. callMethod_return self method returnData w = Some (Inr returnData, w') \<and> log_only w w'"
  by (simp add: callMethod_return_def bind_run_def return_run_def logprint_run log_only_def)

lemma log_token_handling_run:
  "\<exists>w'. log_token_handling self enabled w = Some (Inr (), w') \<and> log_only w w'"
  by (simp add: log_token_handling_def logprint_run)

lemma callMethod_request_run:
  "\<exists>w'. callMethod_request self method arguments mode w =
       Some ((case remote w (requests w)
                    \<lparr>url = ''https://'' @ host self @ '':'' @ str_int (port self) @ ''/api/'' @ mode @ ''/'' @ method,
                     data = filter (\<lambda>(key, v). truthy v) arguments\<rparr> of
                Raises (HTTPError code msg meth) \<Rightarrow> Inl (HTTPError code msg meth)
              | Raises e \<Rightarrow> Inl (MailStoreBaseError e)
              | Undecodable e \<Rightarrow> Inl e
              | Body decodedValues jsonValues \<Rightarrow> Inr jsonValues), w')
     \<and> remote w' = remote w
     \<and> requests w' = requests w @
          [\<lparr>url = ''https://'' @ host self @ '':'' @ str_int (port self) @ ''/api/'' @ mode @ ''/'' @ method,
            data = filter (\<lambda>(key, v). truthy v) arguments\<rparr>]
     \<and> callbacks w' = callbacks w"
  by (simp add: callMethod_request_def Let_def bind_run_def return_run_def raise_run_def urlopen_def
        logprint_run split: response.splits exn.splits)


lemma callMethod_handled:
  assumes req: "callMethod_request self method arguments mode w = Some (Inr jsonValues, w1)"
      and has: "hasToken self jsonValues w1 = Some (Inr has, w2)"
      and yes: "has \<and> (case autoHandleToken' of Some b \<Rightarrow> b | None \<Rightarrow> autoHandleToken self)"
  shows "\<exists>w3. log_token_handling self True w2 = Some (Inr (), w3) \<and> log_only w2 w3 \<and>
              (case handleToken n self jsonValues None w3 of
                 None \<Rightarrow> callMethod n self method arguments mode autoHandleToken' w = None
               | Some (Inl e, w4) \<Rightarrow>
                   callMethod n self method arguments mode autoHandleToken' w = Some (Inl e, w4)
               | Some (Inr r, w4) \<Rightarrow>
                   (\<exists>w'. callMethod n self method arguments mode autoHandleToken' w = Some (Inr r, w')
                         \<and> log_only w4 w'))"
proof -
  obtain w3 where w3: "log_token_handling self True w2 = Some (Inr (), w3)" "log_only w2 w3"
    using log_token_handling_run by blast
  have run: "callMethod n self method arguments mode autoHandleToken' w =
               bind_run (handleToken n self jsonValues None) (callMethod_return self method) w3"
    using yes by (subst callMethod.simps) (simp add: bind_run_def req has w3)
  have "case handleToken n self jsonValues None w3 of
          None \<Rightarrow> callMethod n self method arguments mode autoHandleToken' w = None
        | Some (Inl e, w4) \<Rightarrow>
            callMethod n self method arguments mode autoHandleToken' w = Some (Inl e, w4)
        | Some (Inr r, w4) \<Rightarrow>
            (\<exists>w'. callMethod n self method arguments mode autoHandleToken' w = Some (Inr r, w')
                  \<and> log_only w4 w')"
    using callMethod_return_run [of self "method"]
    by (auto simp: run bind_run_def split: option.splits sum.splits)
  with w3 show ?thesis by auto
qed

lemma callMethod_unhandled:
  assumes req: "callMethod_request self method arguments mode w = Some (Inr jsonValues, w1)"
      and has: "hasToken self jsonValues w1 = Some (Inr has, w2)"
      and no: "\<not> (has \<and> (case autoHandleToken' of Some b \<Rightarrow> b | None \<Rightarrow> autoHandleToken self))"
  shows "\<exists>w'. callMethod n self method arguments mode autoHandleToken' w = Some (Inr jsonValues, w')
            \<and> log_only w2 w'"
proof (cases has)
  case False
  have "callMethod n self method arguments mode autoHandleToken' w =
          callMethod_return self method jsonValues w2"
    using False by (subst callMethod.simps) (simp add: bind_run_def req has return_run_def)
  then show ?thesis using callMethod_return_run [of self "method" jsonValues w2] by simp
next
  case True
  obtain w3 where w3: "log_token_handling self False w2 = Some (Inr (), w3)" "log_only w2 w3"
    using log_token_handling_run by blast
  have "callMethod n self method arguments mode autoHandleToken' w =
          callMethod_return self method jsonValues w3"
    using True no by (subst callMethod.simps) (simp add: bind_run_def req has w3 return_run_def)
  then show ?thesis
    using callMethod_return_run [of self "method" jsonValues w3] w3(2) log_only_trans by auto
qed

subsection \<open>Requests are only ever appended\<close>

lemma growsI: "(\<And>w r w'. m w = Some (r, w') \<Longrightarrow> \<exists>rest. requests w' = requests w @ rest) \<Longrightarrow> grows m"
  by (simp add: grows_def)

lemma growsD: "grows m \<Longrightarrow> m w = Some (r, w') \<Longrightarrow> \<exists>rest. requests w' = requests w @ rest"
  by (simp add: grows_def)

lemma grows_bind: "grows m \<Longrightarrow> (\<And>a. grows (f a)) \<Longrightarrow> grows (bind_run m f)"
  unfolding grows_def bind_run_def
  by (fastforce split: option.splits sum.splits prod.splits)

lemma grows_return [simp]: "grows (return_run a)"
  by (simp add: grows_def return_run_def)

lemma grows_raise [simp]: "grows (raise_run e)"
  by (simp add: grows_def raise_run_def)

lemma grows_lift [simp]: "grows (lift_run r)"
  by (simp add: grows_def lift_run_def)

lemma grows_diverge [simp]: "grows diverge"
  by (simp add: grows_def diverge_def)

lemma grows_logprint [simp]: "grows (logprint self lvl args)"
  by (auto simp: grows_def logprint_def return_run_def raise_run_def split: if_splits option.splits)

lemma grows_hasToken [simp]: "grows (hasToken self jsonValues)"
  by (auto simp: grows_def dest: hasToken_traces)

lemma grows_call [simp]: "grows (call f v)"
  by (auto simp: grows_def call_def)

lemma grows_run_callback [simp]: "grows (run_callback self which jsonValues)"
  by (auto simp: run_callback_def intro!: grows_bind split: callback.splits)

lemma grows_callMethod_request [simp]: "grows (callMethod_request self method arguments mode)"
proof (rule growsI)
  fix w r w'
  assume "callMethod_request self method arguments mode w = Some (r, w')"
  with callMethod_request_run [of self "method" arguments mode w]
  show "\<exists>rest. requests w' = requests w @ rest" by auto
qed

lemma grows_callMethod_return [simp]: "grows (callMethod_return self method returnData)"
proof (rule growsI)
  fix w r w'
  assume "callMethod_return self method returnData w = Some (r, w')"
  with callMethod_return_run [of self "method" returnData w]
  show "\<exists>rest. requests w' = requests w @ rest" by (auto simp: log_only_def)
qed

lemma grows_log_token_handling [simp]: "grows (log_token_handling self b)"
  by (simp add: log_token_handling_def)

lemma grows_log_refreshing [simp]: "grows (log_refreshing self j)"
  by (auto simp: log_refreshing_def intro!: grows_bind)

lemma grows_log_finished [simp]: "grows (log_finished self j)"
  by (auto simp: log_finished_def intro!: grows_bind)

lemma grows_no_token [simp]: "grows (no_token self m j)"
  by (auto simp: no_token_def intro!: grows_bind)

lemma grows_handleToken_if_while:
  assumes "\<And>wt j. grows (handleToken_while n self wt j)"
  shows "grows (handleToken n self jsonValues waitTime')"
  by (subst handleToken.simps) (auto intro!: grows_bind assms)

lemma grows_callMethod_if_handleToken:
  assumes "\<And>j wt. grows (handleToken n self j wt)"
  shows "grows (callMethod n self method arguments mode autoHandleToken')"
  by (subst callMethod.simps) (auto intro!: grows_bind assms)

lemma grows_GetStatus_if_callMethod:
  assumes "\<And>method arguments mode flag. grows (callMethod n self method arguments mode flag)"
  shows "grows (GetStatus n self jsonValues waitTime')"
  by (subst GetStatus.simps) (auto intro!: grows_bind assms)

lemma grows_while_0: "grows (handleToken_while 0 self wt j)"
  by (subst handleToken_while.simps) (auto intro!: grows_bind)

lemma grows_while_Suc:
  assumes "\<And>j wt. grows (GetStatus n self j wt)" and "\<And>wt j. grows (handleToken_while n self wt j)"
  shows "grows (handleToken_while (Suc n) self wt j)"
  by (subst handleToken_while.simps) (auto intro!: grows_bind assms)

lemma grows_all:
  "(\<forall>wt j. grows (handleToken_while n self wt j)) \<and> (\<forall>j wt. grows (GetStatus n self j wt))"
proof (induction n)
  case 0
  have w: "\<And>wt j. grows (handleToken_while 0 self wt j)" by (rule grows_while_0)
  show ?case
    by (intro conjI allI w grows_GetStatus_if_callMethod grows_callMethod_if_handleToken
          grows_handleToken_if_while)
next
  case (Suc n)
  then have w: "\<And>wt j. grows (handleToken_while (Suc n) self wt j)"
    by (intro grows_while_Suc) auto
  show ?case
    by (intro conjI allI w grows_GetStatus_if_callMethod grows_callMethod_if_handleToken
          grows_handleToken_if_while)
qed

lemma grows_handleToken [simp]: "grows (handleToken n self j wt)"
  by (intro grows_handleToken_if_while) (simp add: grows_all)

lemma grows_callMethod [simp]: "grows (callMethod n self method arguments mode flag)"
  by (intro grows_callMethod_if_handleToken) simp

subsection \<open>Unfolding the poll loop\<close>

lemma handleToken_while_missing:
  assumes "py_getitem jsonValues ''statusCode'' = Inl e"
  shows "handleToken_while n self waitTime' jsonValues w = Some (Inl e, w)"
  by (subst handleToken_while.simps) (simp add: bind_run_def lift_run_def assms)

lemma handleToken_while_terminal:
  assumes "py_getitem jsonValues ''statusCode'' = Inr statusCode" and "statusCode \<noteq> PyStr ''running''"
  shows "handleToken_while n self waitTime' jsonValues w =
           bind_run (log_finished self jsonValues) (\<lambda>_. return_run jsonValues) w"
  by (subst handleToken_while.simps) (simp add: bind_run_def lift_run_def assms)

lemma handleToken_while_running:
  assumes "py_getitem jsonValues ''statusCode'' = Inr (PyStr ''running'')"
  shows "handleToken_while (Suc n) self waitTime' jsonValues w =
           bind_run (log_refreshing self jsonValues) (\<lambda>_.
           bind_run (GetStatus n self jsonValues (Some waitTime')) (\<lambda>jsonValues'.
           bind_run (logprint self 4 [LStr ''__handleToken:'', LVal jsonValues']) (\<lambda>_.
           bind_run (run_callback self ''refreshed'' jsonValues') (\<lambda>_.
           handleToken_while n self waitTime' jsonValues')))) w"
  by (subst handleToken_while.simps) (simp add: bind_run_def lift_run_def assms)

lemma handleToken_while_running_0:
  assumes "py_getitem jsonValues ''statusCode'' = Inr (PyStr ''running'')"
  shows "handleToken_while 0 self waitTime' jsonValues w =
           bind_run (log_refreshing self jsonValues) (\<lambda>_. diverge) w"
  by (subst handleToken_while.simps) (simp add: bind_run_def lift_run_def assms)

lemma token_msg_dict:
  "token_msg before (PyDict kvs) after =
     (case map_of kvs ''token'' of
        None \<Rightarrow> Inl (KeyError (PyStr ''token''))
      | Some (PyStr s) \<Rightarrow> Inr (before @ s @ after)
      | Some _ \<Rightarrow> Inl TypeError)"
  by (simp add: token_msg_def bind_exn_def split: option.splits pyval.splits)

lemma log_refreshing_run:
  "log_refreshing self jsonValues w =
     (case token_msg ''__handleToken: Refreshing status for task with token '' jsonValues ''.'' of
        Inl e \<Rightarrow> Some (Inl e, w)
      | Inr m \<Rightarrow> Some (Inr (), w\<lparr>logged := logged w @
                    (if 3 \<le> logLevel self then [(''INFO'', [LStr m])] else [])\<rparr>))"
  by (simp add: log_refreshing_def bind_run_def lift_run_def logprint_run split: sum.splits)

lemma log_finished_run:
  "log_finished self jsonValues w =
     (case token_msg ''__handleToken: Task with token '' jsonValues '' finished.'' of
        Inl e \<Rightarrow> Some (Inl e, w)
      | Inr m \<Rightarrow> Some (Inr (), w\<lparr>logged := logged w @
                    (if 3 \<le> logLevel self then [(''INFO'', [LStr m])] else [])\<rparr>))"
  by (simp add: log_finished_def bind_run_def lift_run_def logprint_run split: sum.splits)

lemma handleToken_while_bad_token:
  assumes sc: "py_getitem jsonValues ''statusCode'' = Inr statusCode"
      and bad: "\<And>before after. token_msg before jsonValues after = Inl e"
  shows "handleToken_while n self waitTime' jsonValues w = Some (Inl e, w)"
proof (cases "statusCode = PyStr ''running''")
  case False
  with sc show ?thesis
    by (simp add: handleToken_while_terminal [where statusCode = statusCode] log_finished_run
          bind_run_def bad)
next
  case True
  with sc have run: "py_getitem jsonValues ''statusCode'' = Inr (PyStr ''running'')" by simp
  show ?thesis
    by (cases n)
       (simp_all add: handleToken_while_running_0 [OF run] handleToken_while_running [OF run]
          log_refreshing_run bind_run_def bad)
qed

lemma refresh_step:
  assumes "py_getitem jsonValues ''statusCode'' = Inr (PyStr ''running'')"
      and "log_refreshing self jsonValues w = Some (Inr (), w1)"
      and "GetStatus n self jsonValues (Some waitTime') w1 = Some (Inr jsonValues', w2)"
      and "logprint self 4 [LStr ''__handleToken:'', LVal jsonValues'] w2 = Some (Inr (), w3)"
      and "run_callback self ''refreshed'' jsonValues' w3 = Some (Inr (), w4)"
  shows "handleToken_while (Suc n) self waitTime' jsonValues w =
           handleToken_while n self waitTime' jsonValues' w4"
  using assms by (simp add: handleToken_while_running bind_run_def)

lemma refresh_raises:
  assumes "py_getitem jsonValues ''statusCode'' = Inr (PyStr ''running'')"
      and "log_refreshing self jsonValues w = Some (Inr (), w1)"
      and "GetStatus n self jsonValues (Some waitTime') w1 = Some (Inl e, w2)"
  shows "handleToken_while (Suc n) self waitTime' jsonValues w = Some (Inl e, w2)"
  using assms by (simp add: handleToken_while_running bind_run_def)

lemma iterates_same:
  assumes "iterates self waitTime' s s'"
  shows "handleToken_while (fst s) self waitTime' (fst (snd s)) (snd (snd s)) =
           handleToken_while (fst s') self waitTime' (fst (snd s')) (snd (snd s'))"
  using assms
proof (induction rule: iterates.induct)
  case start
  show ?case by simp
next
  case (refresh n jsonValues w w1 jsonValues' w2 w3 w4)
  from refresh_step [OF refresh.hyps(2-6)] refresh.IH show ?case by simp
qed

lemma str_int_digit [simp]: "str_int 1 = ''1''" "str_int 2 = ''2''" "str_int 3 = ''3''"
  by (simp_all add: str_int_def str_nat.simps)

lemma run_callback_run:
  "run_callback self which jsonValues w =
     (case callbackStatus self of
        NotCallable \<Rightarrow> Some (Inr (), w)
      | Callable None f \<Rightarrow> Some (Inl AttributeError, w)
      | Callable (Some name) f \<Rightarrow>
          Some ((case f jsonValues of None \<Rightarrow> Inr () | Some e \<Rightarrow> Inl e),
                w\<lparr>logged := logged w @
                     (if 3 \<le> logLevel self
                      then [(''INFO'', [LStr (''__handleToken: Executing callback function '' @ [CHR 0x22] @ name
                                              @ [CHR 0x22] @ '' for '' @ which @ '' status.'')])]
                      else []),
                   callbacks := callbacks w @ [jsonValues]\<rparr>))"
  by (simp add: run_callback_def bind_run_def lift_run_def return_run_def logprint_run call_def
        split: callback.splits option.splits)

lemma run_callback_returns:
  assumes "case callbackStatus self of
             NotCallable \<Rightarrow> True
           | Callable name f \<Rightarrow> (case name of None \<Rightarrow> False | Some _ \<Rightarrow> True) \<and> f jsonValues = None"
  shows "\<exists>w'. run_callback self which jsonValues w = Some (Inr (), w')
           \<and> remote w' = remote w \<and> requests w' = requests w
           \<and> callbacks w' = callbacks w @
                (case callbackStatus self of NotCallable \<Rightarrow> [] | Callable name f \<Rightarrow> [jsonValues])"
  using assms by (auto simp: run_callback_run split: callback.splits option.splits)

lemma log_refreshing_ok:
  assumes "py_getitem jsonValues ''token'' = Inr (PyStr t)"
  shows "\<exists>w'. log_refreshing self jsonValues w = Some (Inr (), w') \<and> log_only w w'"
  using assms by (simp add: log_refreshing_run token_msg_def bind_exn_def)

subsection \<open>The token presence check\<close>

text \<open>
  What \<open>__hasToken\<close> does on a JSON object. It returns \<open>False\<close> when \<open>token\<close> is missing or
  \<open>null\<close> or when \<open>statusVersion\<close> is missing, and \<open>True\<close> when \<open>token\<close> is a string and
  \<open>statusVersion\<close> is present (whatever its value, \<open>null\<close> included). When \<open>token\<close> is
  present, not \<open>null\<close> and not a string, and \<open>statusVersion\<close> is present, the concatenation
  that builds the log message raises \<open>TypeError\<close>. No request is sent and no callback is
  invoked; the world changes by at most one printed line, at level \<open>INFO\<close>.
\<close>

lemma hasToken_on_object:
  "\<exists>lines. hasToken self (PyDict kvs) w = Some
      ((case map_of kvs ''token'' of
          None \<Rightarrow> Inr False
        | Some PyNone \<Rightarrow> Inr False
        | Some (PyStr s) \<Rightarrow> Inr (map_of kvs ''statusVersion'' \<noteq> None)
        | Some _ \<Rightarrow> (if map_of kvs ''statusVersion'' = None then Inr False else Inl TypeError)),
       w\<lparr>logged := logged w @ lines\<rparr>)
     \<and> (lines = [] \<or> (\<exists>m. lines = [(''INFO'', [LStr m])]))"
proof -
  have same: "\<exists>lines. w = w\<lparr>logged := logged w @ lines\<rparr>
                \<and> (lines = [] \<or> (\<exists>m. lines = [(''INFO'', [LStr m])]))"
    by (rule exI [of _ "[]"]) simp
  have line: "\<exists>lines. w\<lparr>logged := logged w @ [(''INFO'', [LStr m])]\<rparr> = w\<lparr>logged := logged w @ lines\<rparr>
                \<and> (lines = [] \<or> (\<exists>m. lines = [(''INFO'', [LStr m])]))" for m
    by (rule exI [of _ "[(''INFO'', [LStr m])]"]) simp
  show ?thesis
    by (auto simp: hasToken_run hasToken_cond_def hasToken_msg_def bind_exn_def
             split: option.splits pyval.splits intro!: same line)
qed

text \<open>
  C3, at the object \<open>{"token": 5, "statusVersion": 1}\<close>. Both keys are present and neither
  value is \<open>null\<close>, so the condition of line 93 holds and the claim has the check return
  \<open>True\<close>. But the log message of line 94 is built first, and it applies \<open>str\<close> to the status
  version and not to the token: \<open>"..." + 5\<close> raises \<open>TypeError\<close>, for every client, whatever
  its \<open>logLevel\<close>, and in every world, which is left as it was.
\<close>

theorem hasToken_nonstring_token:
  "py_getitem (PyDict [(''token'', PyInt 5), (''statusVersion'', PyInt 1)]) ''token'' = Inr (PyInt 5)
   \<and> py_getitem (PyDict [(''token'', PyInt 5), (''statusVersion'', PyInt 1)]) ''statusVersion'' = Inr (PyInt 1)
   \<and> hasToken self (PyDict [(''token'', PyInt 5), (''statusVersion'', PyInt 1)]) w =
       Some (Inl TypeError, w)"
  by (simp add: hasToken_run hasToken_cond_def hasToken_msg_def bind_exn_def)

subsection \<open>Status refresh and cancellation without a token\<close>

text \<open>
  C4. On every response for which the token presence check returns \<open>False\<close>, \<open>GetStatus\<close>
  and \<open>CancelAsync\<close> both raise \<open>MailStoreNoTokenError\<close> carrying that response; the list of
  requests sent, the list of callback invocations and the remote end are as before.
\<close>

theorem no_token_no_call:
  assumes "hasToken self jsonValues w = Some (Inr False, w1)"
  shows "(\<exists>w'. GetStatus n self jsonValues waitTime' w = Some (Inl (MailStoreNoTokenError jsonValues), w')
            \<and> requests w' = requests w \<and> callbacks w' = callbacks w \<and> remote w' = remote w)
       \<and> (\<exists>w'. CancelAsync n self jsonValues w = Some (Inl (MailStoreNoTokenError jsonValues), w')
            \<and> requests w' = requests w \<and> callbacks w' = callbacks w \<and> remote w' = remote w)"
proof -
  from assms have tr: "remote w1 = remote w" "requests w1 = requests w" "callbacks w1 = callbacks w"
    using hasToken_traces by blast+
  have "GetStatus n self jsonValues waitTime' w =
          no_token self ''GetStatus: Cannot get status, no token found!'' jsonValues w1"
    by (subst GetStatus.simps) (simp add: bind_run_def assms)
  moreover have "CancelAsync n self jsonValues w =
          no_token self ''CancelAsync: Cannot cancel, no token found!'' jsonValues w1"
    by (simp add: CancelAsync_def bind_run_def assms)
  ultimately show ?thesis
    by (simp add: no_token_run tr)
qed

theorem no_token_no_call_witness:
  "hasToken server_Client (PyDict [(''statusCode'', PyStr ''succeeded'')]) (fresh []) =
     Some (Inr False, fresh [])
   \<and> (\<exists>w'. GetStatus 0 server_Client (PyDict [(''statusCode'', PyStr ''succeeded'')]) None (fresh []) =
            Some (Inl (MailStoreNoTokenError (PyDict [(''statusCode'', PyStr ''succeeded'')])), w')
          \<and> requests w' = [] \<and> callbacks w' = [])
   \<and> (\<exists>w'. CancelAsync 0 server_Client (PyDict [(''statusCode'', PyStr ''succeeded'')]) (fresh []) =
            Some (Inl (MailStoreNoTokenError (PyDict [(''statusCode'', PyStr ''succeeded'')])), w')
          \<and> requests w' = [] \<and> callbacks w' = [])"
proof -
  have h: "hasToken server_Client (PyDict [(''statusCode'', PyStr ''succeeded'')]) (fresh []) =
             Some (Inr False, fresh [])"
    by (simp add: hasToken_run hasToken_cond_def bind_exn_def server_Client_def fresh_def)
  show ?thesis
    using h no_token_no_call [OF h, of 0 None] by (auto simp: fresh_def)
qed

subsection \<open>The dispatch decision\<close>

text \<open>
  C2. Let \<open>__callMethod\<close> have decoded the response \<open>jsonValues\<close> and let the token presence
  check on it return \<open>has\<close>. The effective flag is the per-call \<open>autoHandleToken\<close> when one is
  given, else the client's. If the check fails, or if it passes and the effective flag is false,
  \<open>__callMethod\<close> returns \<open>jsonValues\<close> itself and only log lines are added. If the check
  passes and the effective flag is true, \<open>__handleToken\<close> is run on \<open>jsonValues\<close> and
  \<open>__callMethod\<close> ends as that run ends: with its return value, with its exception, or not
  at all.
\<close>

theorem callMethod_dispatch:
  assumes req: "callMethod_request self method arguments mode w = Some (Inr jsonValues, w1)"
      and has: "hasToken self jsonValues w1 = Some (Inr has, w2)"
  shows "if has \<and> (case autoHandleToken' of Some b \<Rightarrow> b | None \<Rightarrow> autoHandleToken self) then
           (\<exists>w3. log_token_handling self True w2 = Some (Inr (), w3) \<and> log_only w2 w3 \<and>
              (case handleToken n self jsonValues None w3 of
                 None \<Rightarrow> callMethod n self method arguments mode autoHandleToken' w = None
               | Some (Inl e, w4) \<Rightarrow>
                   callMethod n self method arguments mode autoHandleToken' w = Some (Inl e, w4)
               | Some (Inr r, w4) \<Rightarrow>
                   (\<exists>w'. callMethod n self method arguments mode autoHandleToken' w = Some (Inr r, w')
                         \<and> log_only w4 w')))
         else (\<exists>w'. callMethod n self method arguments mode autoHandleToken' w = Some (Inr jsonValues, w')
                    \<and> log_only w2 w')"
  using callMethod_handled [OF req has, of autoHandleToken' n]
        callMethod_unhandled [OF req has, of autoHandleToken' n]
  by (simp split: if_splits)

theorem callMethod_dispatch_witness:
  "(\<exists>w'. callMethod 0 server_Client ''CompactStore'' [(''id'', PyInt 1)] ''invoke'' (Some False)
            (fresh [Body ''{...}'' scenario_initial]) = Some (Inr scenario_initial, w')
          \<and> requests w' = [\<lparr>url = ''https://127.0.0.1:8463/api/invoke/CompactStore'',
                             data = [(''id'', PyInt 1)]\<rparr>]
          \<and> callbacks w' = [])"
proof -
  let ?w = "fresh [Body ''{...}'' scenario_initial]"
  let ?w1 = "?w\<lparr>requests := [\<lparr>url = ''https://127.0.0.1:8463/api/invoke/CompactStore'',
                                 data = [(''id'', PyInt 1)]\<rparr>]\<rparr>"
  have req: "callMethod_request server_Client ''CompactStore'' [(''id'', PyInt 1)] ''invoke'' ?w =
               Some (Inr scenario_initial, ?w1)"
    by (simp add: run_simps server_Client_def)
  have has: "hasToken server_Client scenario_initial ?w1 = Some (Inr True, ?w1)"
    by (simp add: run_simps server_Client_def scenario_defs)
  from callMethod_dispatch [OF req has, of "Some False" 0] show ?thesis
    by (auto simp: log_only_def fresh_def)
qed

subsection \<open>The status refresh\<close>

lemma GetStatus_run:
  assumes has: "hasToken self jsonValues w = Some (Inr True, w1)"
      and tok: "py_getitem jsonValues ''token'' = Inr t"
      and ver: "py_getitem jsonValues ''statusVersion'' = Inr v"
      and rem: "remote w (requests w)
                  \<lparr>url = ''https://'' @ host self @ '':'' @ str_int (port self) @ ''/api//get-status'',
                   data = filter (\<lambda>(key, v). truthy v)
                     [(''token'', t),
                      (''millisecondsTimeout'',
                        PyInt (case waitTime' of Some x \<Rightarrow> if x \<noteq> 0 then x else waitTime self
                                               | None \<Rightarrow> waitTime self)),
                      (''lastKnownStatusVersion'', PyStr (py_str v))]\<rparr>
                = Body decodedValues jsonValues'"
      and has': "hasToken self jsonValues' w = Some (Inr has', w2)"
  shows "\<exists>w'. GetStatus n self jsonValues waitTime' w = Some (Inr jsonValues', w')
           \<and> requests w' = requests w @
                [\<lparr>url = ''https://'' @ host self @ '':'' @ str_int (port self) @ ''/api//get-status'',
                  data = filter (\<lambda>(key, v). truthy v)
                    [(''token'', t),
                     (''millisecondsTimeout'',
                       PyInt (case waitTime' of Some x \<Rightarrow> if x \<noteq> 0 then x else waitTime self
                                              | None \<Rightarrow> waitTime self)),
                     (''lastKnownStatusVersion'', PyStr (py_str v))]\<rparr>]
           \<and> callbacks w' = callbacks w \<and> remote w' = remote w"
proof -
  let ?wt = "case waitTime' of Some x \<Rightarrow> if x \<noteq> 0 then x else waitTime self | None \<Rightarrow> waitTime self"
  let ?args = "[(''token'', t), (''millisecondsTimeout'', PyInt ?wt),
                (''lastKnownStatusVersion'', PyStr (py_str v))]"
  let ?req = "\<lparr>url = ''https://'' @ host self @ '':'' @ str_int (port self) @ ''/api//get-status'',
               data = filter (\<lambda>(key, v). truthy v) ?args\<rparr>"
  from has have tr1: "remote w1 = remote w" "requests w1 = requests w" "callbacks w1 = callbacks w"
    using hasToken_traces by blast+
  have args: "GetStatus_arguments jsonValues ?wt = Inr ?args"
    by (simp add: GetStatus_arguments_def bind_exn_def tok ver)
  have step: "GetStatus n self jsonValues waitTime' w =
                callMethod n self ''get-status'' ?args '''' (Some False) w1"
    by (subst GetStatus.simps) (simp add: bind_run_def has lift_run_def args)
  obtain wa where wa: "callMethod_request self ''get-status'' ?args '''' w1 = Some (Inr jsonValues', wa)"
      "remote wa = remote w1" "requests wa = requests w1 @ [?req]" "callbacks wa = callbacks w1"
    using callMethod_request_run [of self "''get-status''" ?args "''''" w1] rem
    by (auto simp: tr1)
  obtain wb where wb: "hasToken self jsonValues' wa = Some (Inr has', wb)"
    using hasToken_any_world [OF has'] by blast
  then have tr2: "requests wb = requests wa" "callbacks wb = callbacks wa" "remote wb = remote wa"
    using hasToken_traces by blast+
  from callMethod_unhandled [OF wa(1) wb, of "Some False" n]
  obtain w' where "callMethod n self ''get-status'' ?args '''' (Some False) w1 = Some (Inr jsonValues', w')"
      "log_only wb w'"
    by auto
  then show ?thesis
    by (auto simp: step log_only_def tr1 tr2 wa)
qed

text \<open>
  C6, as the code has it. On a response that passes the token presence check, \<open>GetStatus\<close>
  calls \<open>__callMethod\<close> for \<open>get-status\<close> (mode \<open>""\<close>) with the arguments \<open>token\<close>,
  \<open>millisecondsTimeout\<close> and \<open>lastKnownStatusVersion\<close>, of which the POST body carries those
  whose value is truthy. When the remote end answers with a decoded response on which the token
  presence check does not raise, \<open>GetStatus\<close> returns that response after this one request and
  without any callback invocation, whatever the fuel, the client's \<open>autoHandleToken\<close> and the
  outcome \<open>has'\<close> of the check on the new response: the poll loop is not entered.
\<close>

theorem GetStatus_single_call:
  assumes has: "hasToken self jsonValues w = Some (Inr True, w1)"
      and tok: "py_getitem jsonValues ''token'' = Inr t"
      and ver: "py_getitem jsonValues ''statusVersion'' = Inr v"
      and rem: "remote w (requests w)
                  \<lparr>url = ''https://'' @ host self @ '':'' @ str_int (port self) @ ''/api//get-status'',
                   data = filter (\<lambda>(key, v). truthy v)
                     [(''token'', t),
                      (''millisecondsTimeout'',
                        PyInt (case waitTime' of Some x \<Rightarrow> if x \<noteq> 0 then x else waitTime self
                                               | None \<Rightarrow> waitTime self)),
                      (''lastKnownStatusVersion'', PyStr (py_str v))]\<rparr>
                = Body decodedValues jsonValues'"
      and has': "hasToken self jsonValues' w = Some (Inr has', w2)"
  shows "\<exists>w'. GetStatus n self jsonValues waitTime' w = Some (Inr jsonValues', w')
           \<and> requests w' = requests w @
                [\<lparr>url = ''https://'' @ host self @ '':'' @ str_int (port self) @ ''/api//get-status'',
                  data = filter (\<lambda>(key, v). truthy v)
                    [(''token'', t),
                     (''millisecondsTimeout'',
                       PyInt (case waitTime' of Some x \<Rightarrow> if x \<noteq> 0 then x else waitTime self
                                              | None \<Rightarrow> waitTime self)),
                     (''lastKnownStatusVersion'', PyStr (py_str v))]\<rparr>]
           \<and> callbacks w' = callbacks w"
  using GetStatus_run [OF assms, of n] by blast

theorem GetStatus_single_call_witness:
  "\<exists>w'. GetStatus 0 server_Client scenario_initial (Some 250) (fresh [Body ''{...}'' scenario_refresh1]) =
          Some (Inr scenario_refresh1, w')
        \<and> requests w' =
             [\<lparr>url = ''https://127.0.0.1:8463/api//get-status'',
               data = [(''token'', PyStr ''T1''), (''millisecondsTimeout'', PyInt 250),
                       (''lastKnownStatusVersion'', PyStr ''1'')]\<rparr>]
        \<and> callbacks w' = []"
proof -
  let ?w = "fresh [Body ''{...}'' scenario_refresh1]"
  have has: "hasToken server_Client scenario_initial ?w = Some (Inr True, ?w)"
    by (simp add: run_simps server_Client_def scenario_defs)
  have tok: "py_getitem scenario_initial ''token'' = Inr (PyStr ''T1'')"
    by (simp add: scenario_defs)
  have ver: "py_getitem scenario_initial ''statusVersion'' = Inr (PyInt 1)"
    by (simp add: scenario_defs)
  have has': "hasToken server_Client scenario_refresh1 ?w = Some (Inr True, ?w)"
    by (simp add: run_simps server_Client_def scenario_defs)
  have rem: "remote ?w (requests ?w)
               \<lparr>url = ''https://'' @ host server_Client @ '':'' @ str_int (port server_Client) @ ''/api//get-status'',
                data = filter (\<lambda>(key, v). truthy v)
                  [(''token'', PyStr ''T1''),
                   (''millisecondsTimeout'',
                     PyInt (case Some 250 of Some x \<Rightarrow> if x \<noteq> 0 then x else waitTime server_Client
                                            | None \<Rightarrow> waitTime server_Client)),
                   (''lastKnownStatusVersion'', PyStr (py_str (PyInt 1)))]\<rparr>
             = Body ''{...}'' scenario_refresh1"
    by (simp add: fresh_def scripted_def)
  from GetStatus_single_call [OF has tok ver rem has', of 0] show ?thesis
    by (simp add: run_simps server_Client_def)
qed

text \<open>A client constructed with \<open>waitTime = 0\<close>: the request carries \<open>token\<close> and
  \<open>lastKnownStatusVersion\<close> only, \<open>millisecondsTimeout\<close> is not sent.\<close>

theorem GetStatus_arguments_counterexample:
  "GetStatus 0 (server_Client\<lparr>waitTime := 0\<rparr>) scenario_initial None
     (fresh [Body ''{...}'' scenario_refresh1]) =
   Some (Inr scenario_refresh1,
         fresh [Body ''{...}'' scenario_refresh1]
           \<lparr>requests := [\<lparr>url = ''https://127.0.0.1:8463/api//get-status'',
                          data = [(''token'', PyStr ''T1''), (''lastKnownStatusVersion'', PyStr ''1'')]\<rparr>]\<rparr>)"
  by (simp add: run_simps server_Client_def scenario_defs)

text \<open>
  C7, at the input \<open>GetStatus(response, waitTime=0)\<close> on a client with the default
  \<open>waitTime = 1000\<close>: \<open>GetStatus\<close> tests the truth of \<open>waitTime\<close>, not \<open>waitTime is not None\<close>
  as \<open>__handleToken\<close> does, so the explicit 0 is replaced by the client's default and the
  request carries \<open>millisecondsTimeout = 1000\<close>.
\<close>

theorem GetStatus_zero_waitTime:
  "GetStatus 0 server_Client scenario_initial (Some 0) (fresh [Body ''{...}'' scenario_refresh1]) =
   Some (Inr scenario_refresh1,
         fresh [Body ''{...}'' scenario_refresh1]
           \<lparr>requests := [\<lparr>url = ''https://127.0.0.1:8463/api//get-status'',
                          data = [(''token'', PyStr ''T1''), (''millisecondsTimeout'', PyInt 1000),
                                  (''lastKnownStatusVersion'', PyStr ''1'')]\<rparr>]\<rparr>)"
  by (simp add: run_simps server_Client_def scenario_defs)

subsection \<open>Argument marshalling\<close>

lemma truthy_iff: "truthy v \<longleftrightarrow> v \<notin> {PyNone, PyBool False, PyInt 0, PyStr [], PyList [], PyDict []}"
  by (cases v) auto

text \<open>
  C10. Every \<open>__callMethod\<close>, of either client class, sends one request whose form data are
  the pairs of \<open>arguments\<close>, in order, whose value is none of \<open>None\<close>, \<open>False\<close>, \<open>0\<close>,
  the empty string, the empty list and the empty dictionary; and when the call ends, that
  request is the first one it has added to the requests sent.
\<close>

theorem marshalling_omits_falsy:
  "(\<exists>r1 w1. callMethod_request self method arguments mode w = Some (r1, w1)
       \<and> requests w1 = requests w @
            [\<lparr>url = ''https://'' @ host self @ '':'' @ str_int (port self) @ ''/api/'' @ mode @ ''/'' @ method,
              data = filter (\<lambda>(key, v). v \<notin> {PyNone, PyBool False, PyInt 0, PyStr [], PyList [], PyDict []})
                       arguments\<rparr>])
   \<and> (\<forall>r w'. callMethod n self method arguments mode autoHandleToken' w = Some (r, w') \<longrightarrow>
        (\<exists>rest. requests w' = requests w @
            \<lparr>url = ''https://'' @ host self @ '':'' @ str_int (port self) @ ''/api/'' @ mode @ ''/'' @ method,
             data = filter (\<lambda>(key, v). v \<notin> {PyNone, PyBool False, PyInt 0, PyStr [], PyList [], PyDict []})
                      arguments\<rparr> # rest))"
proof -
  let ?req = "\<lparr>url = ''https://'' @ host self @ '':'' @ str_int (port self) @ ''/api/'' @ mode @ ''/'' @ method,
               data = filter (\<lambda>(key, v). truthy v) arguments\<rparr>"
  have eq: "(\<lambda>(key, v). v \<notin> {PyNone, PyBool False, PyInt 0, PyStr [], PyList [], PyDict []}) =
            (\<lambda>(key :: string, v). truthy v)"
    by (simp add: truthy_iff)
  obtain r1 w1 where first: "callMethod_request self method arguments mode w = Some (r1, w1)"
      "requests w1 = requests w @ [?req]"
    using callMethod_request_run [of self "method" arguments mode w] by auto
  have later: "\<exists>rest. requests w' = requests w @ ?req # rest"
    if run: "callMethod n self method arguments mode autoHandleToken' w = Some (r, w')" for r w'
  proof -
    let ?k = "\<lambda>jsonValues.
       bind_run (hasToken self jsonValues) (\<lambda>has.
       bind_run
         (if has then
            (if (case autoHandleToken' of Some b \<Rightarrow> b | None \<Rightarrow> autoHandleToken self) then
               bind_run (log_token_handling self True) (\<lambda>_. handleToken n self jsonValues None)
             else
               bind_run (log_token_handling self False) (\<lambda>_. return_run jsonValues))
          else return_run jsonValues)
         (callMethod_return self method))"
    have unfold: "callMethod n self method arguments mode autoHandleToken' w =
                    bind_run (callMethod_request self method arguments mode) ?k w"
      by (subst callMethod.simps) (rule refl)
    have k: "grows (?k j)" for j
      by (auto intro!: grows_bind)
    show ?thesis
    proof (cases r1)
      case (Inl e)
      with run first unfold have "w' = w1" by (simp add: bind_run_def)
      with first show ?thesis by simp
    next
      case (Inr j)
      with run first unfold have "?k j w1 = Some (r, w')" by (simp add: bind_run_def)
      from growsD [OF k this] first show ?thesis by auto
    qed
  qed
  from first later show ?thesis unfolding eq by blast
qed

text \<open>\<open>GetChildFolders\<close> with \<open>maxLevels=0\<close> on both clients, and \<open>GetProfiles\<close> with
  \<open>raw=False\<close>: the argument is not sent.\<close>

theorem marshalling_omits_falsy_witness:
  "(\<exists>r w'. server_GetChildFolders 0 server_Client (PyStr ''joe'') (PyInt 0) None
              (fresh [Body ''{...}'' (PyDict [(''statusCode'', PyStr ''succeeded'')])]) = Some (r, w')
           \<and> requests w' = [\<lparr>url = ''https://127.0.0.1:8463/api/invoke/GetChildFolders'',
                              data = [(''folder'', PyStr ''joe'')]\<rparr>])
   \<and> (\<exists>r w'. spe_GetChildFolders 0 spe_Client (PyStr ''inst01'') PyNone (PyInt 0) None
              (fresh [Body ''{...}'' (PyDict [(''statusCode'', PyStr ''succeeded'')])]) = Some (r, w')
           \<and> requests w' = [\<lparr>url = ''https://127.0.0.1:8474/api/invoke/GetChildFolders'',
                              data = [(''instanceID'', PyStr ''inst01'')]\<rparr>])
   \<and> (\<exists>r w'. server_GetProfiles 0 server_Client (PyBool False) None
              (fresh [Body ''{...}'' (PyDict [(''statusCode'', PyStr ''succeeded'')])]) = Some (r, w')
           \<and> requests w' = [\<lparr>url = ''https://127.0.0.1:8463/api/invoke/GetProfiles'', data = []\<rparr>])"
proof -
  let ?ok = "PyDict [(''statusCode'', PyStr ''succeeded'')]"
  let ?w = "fresh [Body ''{...}'' ?ok]"
  have run1: "\<exists>w'. callMethod 0 server_Client ''GetChildFolders''
                 [(''folder'', PyStr ''joe''), (''maxLevels'', PyInt 0)] ''invoke'' None ?w = Some (Inr ?ok, w')
              \<and> length (requests w') = 1"
    by (simp add: run_simps server_Client_def)
  have run2: "\<exists>w'. callMethod 0 spe_Client ''GetChildFolders''
                 [(''instanceID'', PyStr ''inst01''), (''folder'', PyNone), (''maxLevels'', PyInt 0)]
                 ''invoke'' None ?w = Some (Inr ?ok, w')
              \<and> length (requests w') = 1"
    by (simp add: run_simps spe_Client_def)
  have run3: "\<exists>w'. callMethod 0 server_Client ''GetProfiles'' [(''raw'', PyBool False)] ''invoke'' None ?w =
                 Some (Inr ?ok, w')
              \<and> length (requests w') = 1"
    by (simp add: run_simps server_Client_def)
  from run1 marshalling_omits_falsy [of server_Client "''GetChildFolders''"
         "[(''folder'', PyStr ''joe''), (''maxLevels'', PyInt 0)]" "''invoke''" ?w 0 None]
  have c1: "\<exists>r w'. server_GetChildFolders 0 server_Client (PyStr ''joe'') (PyInt 0) None ?w = Some (r, w')
           \<and> requests w' = [\<lparr>url = ''https://127.0.0.1:8463/api/invoke/GetChildFolders'',
                              data = [(''folder'', PyStr ''joe'')]\<rparr>]"
    by (auto simp: server_GetChildFolders_def server_Client_def fresh_def str_int_def str_nat.simps)
  from run2 marshalling_omits_falsy [of spe_Client "''GetChildFolders''"
         "[(''instanceID'', PyStr ''inst01''), (''folder'', PyNone), (''maxLevels'', PyInt 0)]"
         "''invoke''" ?w 0 None]
  have c2: "\<exists>r w'. spe_GetChildFolders 0 spe_Client (PyStr ''inst01'') PyNone (PyInt 0) None ?w = Some (r, w')
           \<and> requests w' = [\<lparr>url = ''https://127.0.0.1:8474/api/invoke/GetChildFolders'',
                              data = [(''instanceID'', PyStr ''inst01'')]\<rparr>]"
    by (auto simp: spe_GetChildFolders_def spe_Client_def fresh_def str_int_def str_nat.simps)
  from run3 marshalling_omits_falsy [of server_Client "''GetProfiles''" "[(''raw'', PyBool False)]"
         "''invoke''" ?w 0 None]
  have c3: "\<exists>r w'. server_GetProfiles 0 server_Client (PyBool False) None ?w = Some (r, w')
           \<and> requests w' = [\<lparr>url = ''https://127.0.0.1:8463/api/invoke/GetProfiles'', data = []\<rparr>]"
    by (auto simp: server_GetProfiles_def server_Client_def fresh_def str_int_def str_nat.simps)
  from c1 c2 c3 show ?thesis by blast
qed

subsection \<open>The response shape that the poll loop presupposes\<close>

text \<open>
  The loop on a JSON object as its current response: without a \<open>statusCode\<close> key it raises
  \<open>KeyError\<close>; with a \<open>statusCode\<close> and without a \<open>token\<close> key it raises \<open>KeyError\<close>, and
  with a \<open>token\<close> that is not a string \<open>TypeError\<close>, whether the \<open>statusCode\<close> is
  \<open>running\<close> or not; a response that is not \<open>running\<close> is returned when its \<open>token\<close> is a
  string.
\<close>

lemma handleToken_while_shape:
  assumes "case map_of kvs ''token'' of
             Some (PyStr s) \<Rightarrow> map_of kvs ''statusCode'' \<noteq> Some (PyStr ''running'')
           | _ \<Rightarrow> True"
  shows "\<exists>w'. handleToken_while n self waitTime' (PyDict kvs) w =
           Some ((case map_of kvs ''statusCode'' of
                    None \<Rightarrow> Inl (KeyError (PyStr ''statusCode''))
                  | Some statusCode \<Rightarrow>
                      (case map_of kvs ''token'' of
                         None \<Rightarrow> Inl (KeyError (PyStr ''token''))
                       | Some (PyStr s) \<Rightarrow> Inr (PyDict kvs)
                       | Some _ \<Rightarrow> Inl TypeError)), w')
         \<and> log_only w w'"
proof (cases "map_of kvs ''statusCode''")
  case None
  then show ?thesis
    by (simp add: handleToken_while_missing)
next
  case (Some statusCode)
  then have sc: "py_getitem (PyDict kvs) ''statusCode'' = Inr statusCode" by simp
  show ?thesis
  proof (cases "\<exists>s. map_of kvs ''token'' = Some (PyStr s)")
    case True
    then obtain s where s: "map_of kvs ''token'' = Some (PyStr s)" by blast
    with assms Some have "statusCode \<noteq> PyStr ''running''" by auto
    with Some s show ?thesis
      by (simp add: handleToken_while_terminal [OF sc] log_finished_run token_msg_dict
            bind_run_def return_run_def)
  next
    case False
    define e where "e = (case map_of kvs ''token'' of None \<Rightarrow> KeyError (PyStr ''token'') | Some _ \<Rightarrow> TypeError)"
    have bad: "token_msg before (PyDict kvs) after = Inl e" for before after
      using False by (auto simp: token_msg_dict e_def split: option.splits pyval.splits)
    have "handleToken_while n self waitTime' (PyDict kvs) w = Some (Inl e, w)"
      by (rule handleToken_while_bad_token [OF sc bad])
    with Some False show ?thesis
      by (auto simp: e_def split: option.splits pyval.splits)
  qed
qed

text \<open>
  C9. Let \<open>__handleToken\<close> have called the callback on the initial response and let its loop
  have made any number of complete iterations, none at all included, so that the current
  response is the initial one or a refreshed one; let it be a JSON object. The loop reads
  \<open>jsonValues["statusCode"]\<close> and, to build its two log messages, \<open>jsonValues["token"]\<close>,
  which it concatenates to a string before \<open>__logprint\<close> looks at the level. So for every
  client, whatever its \<open>logLevel\<close>: without a \<open>statusCode\<close> key the handler raises
  \<open>KeyError\<close>; with a \<open>statusCode\<close> and without a \<open>token\<close> key it raises \<open>KeyError\<close>, and
  with a \<open>token\<close> that is not a string \<open>TypeError\<close>, also when the \<open>statusCode\<close> is not
  \<open>running\<close>, that is after the task has ended, instead of returning the response; the
  handler returns a response that is not \<open>running\<close> only when its \<open>token\<close> is a string.
  Nothing but log lines is added after the last iteration.
\<close>

theorem handleToken_presupposes_shape:
  assumes first: "run_callback self ''first'' jsonValues w = Some (Inr (), w0)"
      and iter: "iterates self (case waitTime' of Some t \<Rightarrow> t | None \<Rightarrow> waitTime self)
                   (n0, jsonValues, w0) (n, PyDict kvs, w1)"
      and shape: "case map_of kvs ''token'' of
                    Some (PyStr s) \<Rightarrow> map_of kvs ''statusCode'' \<noteq> Some (PyStr ''running'')
                  | _ \<Rightarrow> True"
  shows "\<exists>w'. handleToken n0 self jsonValues waitTime' w =
           Some ((case map_of kvs ''statusCode'' of
                    None \<Rightarrow> Inl (KeyError (PyStr ''statusCode''))
                  | Some statusCode \<Rightarrow>
                      (case map_of kvs ''token'' of
                         None \<Rightarrow> Inl (KeyError (PyStr ''token''))
                       | Some (PyStr s) \<Rightarrow> Inr (PyDict kvs)
                       | Some _ \<Rightarrow> Inl TypeError)), w')
         \<and> log_only w1 w'"
proof -
  let ?wt = "case waitTime' of Some t \<Rightarrow> t | None \<Rightarrow> waitTime self"
  have "handleToken n0 self jsonValues waitTime' w = handleToken_while n0 self ?wt jsonValues w0"
    by (subst handleToken.simps) (simp add: bind_run_def first)
  also have "\<dots> = handleToken_while n self ?wt (PyDict kvs) w1"
    using iterates_same [OF iter] by simp
  finally show ?thesis
    using handleToken_while_shape [OF shape, of n self ?wt w1] by simp
qed

text \<open>A run on a client with \<open>logLevel = 0\<close> whose one status refresh returns the terminal
  response \<open>{statusCode: "completed", token: null, statusVersion: 3}\<close>: the handler raises
  \<open>TypeError\<close> after the refresh.\<close>

theorem handleToken_presupposes_shape_witness:
  "\<exists>w'. handleToken (Suc 0) (server_Client\<lparr>logLevel := 0\<rparr>) scenario_initial None
        (fresh [Body ''{...}'' (PyDict [(''statusCode'', PyStr ''completed''), (''token'', PyNone),
                                        (''statusVersion'', PyInt 3)])]) =
      Some (Inl TypeError, w')
    \<and> requests w' = [\<lparr>url = ''https://127.0.0.1:8463/api//get-status'',
                       data = [(''token'', PyStr ''T1''), (''millisecondsTimeout'', PyInt 1000),
                               (''lastKnownStatusVersion'', PyStr ''1'')]\<rparr>]
    \<and> callbacks w' = []"
proof -
  let ?self = "server_Client\<lparr>logLevel := 0\<rparr>"
  let ?kvs = "[(''statusCode'', PyStr ''completed''), (''token'', PyNone), (''statusVersion'', PyInt 3)]"
  let ?w = "fresh [Body ''{...}'' (PyDict ?kvs)]"
  let ?w1 = "?w\<lparr>requests := [\<lparr>url = ''https://127.0.0.1:8463/api//get-status'',
                       data = [(''token'', PyStr ''T1''), (''millisecondsTimeout'', PyInt 1000),
                               (''lastKnownStatusVersion'', PyStr ''1'')]\<rparr>]\<rparr>"
  have first: "run_callback ?self ''first'' scenario_initial ?w = Some (Inr (), ?w)"
    by (simp add: run_simps server_Client_def)
  have running: "py_getitem scenario_initial ''statusCode'' = Inr (PyStr ''running'')"
    by (simp add: scenario_defs)
  have msg: "log_refreshing ?self scenario_initial ?w = Some (Inr (), ?w)"
    by (simp add: run_simps server_Client_def scenario_defs)
  have get: "GetStatus 0 ?self scenario_initial
               (Some (case None of Some t \<Rightarrow> t | None \<Rightarrow> waitTime ?self)) ?w =
             Some (Inr (PyDict ?kvs), ?w1)"
    by (simp add: run_simps server_Client_def scenario_defs)
  have log: "logprint ?self 4 [LStr ''__handleToken:'', LVal (PyDict ?kvs)] ?w1 = Some (Inr (), ?w1)"
    by (simp add: run_simps server_Client_def)
  have cb: "run_callback ?self ''refreshed'' (PyDict ?kvs) ?w1 = Some (Inr (), ?w1)"
    by (simp add: run_simps server_Client_def)
  have iter: "iterates ?self (case None of Some t \<Rightarrow> t | None \<Rightarrow> waitTime ?self)
                (Suc 0, scenario_initial, ?w) (0, PyDict ?kvs, ?w1)"
    by (rule iterates.refresh [OF iterates.start running msg get log cb])
  have shape: "case map_of ?kvs ''token'' of
                 Some (PyStr s) \<Rightarrow> map_of ?kvs ''statusCode'' \<noteq> Some (PyStr ''running'')
               | _ \<Rightarrow> True"
    by simp
  from handleToken_presupposes_shape [OF first iter shape] show ?thesis
    by (auto simp: log_only_def fresh_def)
qed

subsection \<open>Failure of a status refresh\<close>

text \<open>
  C5. Let a top-level \<open>__callMethod\<close> have decoded a response that passes the token presence
  check, with automatic token handling in effect, and let the poll loop of \<open>__handleToken\<close>
  have made any number of complete iterations. If the status refresh of the next iteration
  raises \<open>e\<close>, then the top-level \<open>__callMethod\<close> ends by raising that same \<open>e\<close>, in the very
  world in which the refresh raised: no further request, callback invocation or log line
  follows, and no response is returned.
\<close>

theorem poll_error_propagates:
  assumes req: "callMethod_request self method arguments mode w = Some (Inr jsonValues, wa)"
      and has: "hasToken self jsonValues wa = Some (Inr True, wb)"
      and auto: "case autoHandleToken' of Some b \<Rightarrow> b | None \<Rightarrow> autoHandleToken self"
      and log: "log_token_handling self True wb = Some (Inr (), wc)"
      and first: "run_callback self ''first'' jsonValues wc = Some (Inr (), w0)"
      and iter: "iterates self (waitTime self) (n0, jsonValues, w0) (Suc n, jsonValues', w')"
      and running: "py_getitem jsonValues' ''statusCode'' = Inr (PyStr ''running'')"
      and msg: "log_refreshing self jsonValues' w' = Some (Inr (), w1)"
      and fails: "GetStatus n self jsonValues' (Some (waitTime self)) w1 = Some (Inl e, w2)"
  shows "callMethod n0 self method arguments mode autoHandleToken' w = Some (Inl e, w2)"
proof -
  have "handleToken_while n0 self (waitTime self) jsonValues w0 =
          handleToken_while (Suc n) self (waitTime self) jsonValues' w'"
    using iterates_same [OF iter] by simp
  also have "\<dots> = Some (Inl e, w2)"
    by (rule refresh_raises [OF running msg fails])
  finally have loop: "handleToken_while n0 self (waitTime self) jsonValues w0 = Some (Inl e, w2)" .
  have "handleToken n0 self jsonValues None wc = Some (Inl e, w2)"
    by (subst handleToken.simps) (simp add: bind_run_def first loop)
  then show ?thesis
    using auto by (subst callMethod.simps) (simp add: bind_run_def req has log)
qed

text \<open>A top-level call whose response is \<open>running\<close>, whose first status refresh is
  \<open>running\<close> again and whose second status refresh fails in the transport: the call raises the
  \<open>MailStoreBaseError\<close> that the refresh raised, after three requests.\<close>

theorem poll_error_propagates_witness:
  "callMethod (Suc (Suc 0)) server_Client ''CompactStore'' [(''id'', PyInt 1)] ''invoke'' None
     (fresh [Body ''{...}'' scenario_initial, Body ''{...}'' scenario_refresh1,
             Raises (PyException ''timed out'')]) =
   Some (Inl (MailStoreBaseError (PyException ''timed out'')),
         fresh [Body ''{...}'' scenario_initial, Body ''{...}'' scenario_refresh1,
                Raises (PyException ''timed out'')]
           \<lparr>requests :=
              [\<lparr>url = ''https://127.0.0.1:8463/api/invoke/CompactStore'', data = [(''id'', PyInt 1)]\<rparr>,
               \<lparr>url = ''https://127.0.0.1:8463/api//get-status'',
                data = [(''token'', PyStr ''T1''), (''millisecondsTimeout'', PyInt 1000),
                        (''lastKnownStatusVersion'', PyStr ''1'')]\<rparr>,
               \<lparr>url = ''https://127.0.0.1:8463/api//get-status'',
                data = [(''token'', PyStr ''T1''), (''millisecondsTimeout'', PyInt 1000),
                        (''lastKnownStatusVersion'', PyStr ''2'')]\<rparr>],
            logged := [(''ERROR'', [LStr ''Unhandled Exception''])]\<rparr>)"
proof -
  let ?w = "fresh [Body ''{...}'' scenario_initial, Body ''{...}'' scenario_refresh1,
                   Raises (PyException ''timed out'')]"
  let ?q0 = "\<lparr>url = ''https://127.0.0.1:8463/api/invoke/CompactStore'', data = [(''id'', PyInt 1)]\<rparr>"
  let ?q1 = "\<lparr>url = ''https://127.0.0.1:8463/api//get-status'',
              data = [(''token'', PyStr ''T1''), (''millisecondsTimeout'', PyInt 1000),
                      (''lastKnownStatusVersion'', PyStr ''1'')]\<rparr>"
  let ?q2 = "\<lparr>url = ''https://127.0.0.1:8463/api//get-status'',
              data = [(''token'', PyStr ''T1''), (''millisecondsTimeout'', PyInt 1000),
                      (''lastKnownStatusVersion'', PyStr ''2'')]\<rparr>"
  let ?wa = "?w\<lparr>requests := [?q0]\<rparr>"
  let ?wb = "?w\<lparr>requests := [?q0, ?q1]\<rparr>"
  let ?wc = "?w\<lparr>requests := [?q0, ?q1, ?q2], logged := [(''ERROR'', [LStr ''Unhandled Exception''])]\<rparr>"
  have req: "callMethod_request server_Client ''CompactStore'' [(''id'', PyInt 1)] ''invoke'' ?w =
               Some (Inr scenario_initial, ?wa)"
    by (simp add: run_simps server_Client_def)
  have has: "hasToken server_Client scenario_initial ?wa = Some (Inr True, ?wa)"
    by (simp add: run_simps server_Client_def scenario_defs)
  have auto: "case None of Some b \<Rightarrow> b | None \<Rightarrow> autoHandleToken server_Client"
    by (simp add: server_Client_def)
  have log: "log_token_handling server_Client True ?wa = Some (Inr (), ?wa)"
    by (simp add: run_simps server_Client_def)
  have first: "run_callback server_Client ''first'' scenario_initial ?wa = Some (Inr (), ?wa)"
    by (simp add: run_simps server_Client_def)
  have running0: "py_getitem scenario_initial ''statusCode'' = Inr (PyStr ''running'')"
    by (simp add: scenario_defs)
  have msg0: "log_refreshing server_Client scenario_initial ?wa = Some (Inr (), ?wa)"
    by (simp add: run_simps server_Client_def scenario_defs)
  have get0: "GetStatus (Suc 0) server_Client scenario_initial (Some (waitTime server_Client)) ?wa =
                Some (Inr scenario_refresh1, ?wb)"
    by (simp add: run_simps server_Client_def scenario_defs)
  have log0: "logprint server_Client 4 [LStr ''__handleToken:'', LVal scenario_refresh1] ?wb =
                Some (Inr (), ?wb)"
    by (simp add: run_simps server_Client_def)
  have cb0: "run_callback server_Client ''refreshed'' scenario_refresh1 ?wb = Some (Inr (), ?wb)"
    by (simp add: run_simps server_Client_def)
  have iter: "iterates server_Client (waitTime server_Client)
                (Suc (Suc 0), scenario_initial, ?wa) (Suc 0, scenario_refresh1, ?wb)"
    by (rule iterates.refresh [OF iterates.start running0 msg0 get0 log0 cb0])
  have running: "py_getitem scenario_refresh1 ''statusCode'' = Inr (PyStr ''running'')"
    by (simp add: scenario_defs)
  have msg: "log_refreshing server_Client scenario_refresh1 ?wb = Some (Inr (), ?wb)"
    by (simp add: run_simps server_Client_def scenario_defs)
  have fails: "GetStatus 0 server_Client scenario_refresh1 (Some (waitTime server_Client)) ?wb =
                 Some (Inl (MailStoreBaseError (PyException ''timed out'')), ?wc)"
    by (simp add: run_simps server_Client_def scenario_defs)
  from poll_error_propagates [OF req has auto log first iter running msg fails]
  show ?thesis by simp
qed

subsection \<open>The status version\<close>

text \<open>
  C8, as the code has it. The client never compares the \<open>statusVersion\<close> of a refreshed
  response with the one it knew, and raises nothing on its account. In an iteration of the
  poll loop on a \<open>running\<close> response that passes the token presence check, let the remote end
  answer the status-check request with any decoded response on which the token presence check
  does not raise, whatever its \<open>statusVersion\<close>; and let the callback, if there is one,
  return on it. Then the request is sent, the callback is invoked with the new response, and
  the loop goes on with the new response as the current one.
\<close>

theorem refresh_accepted:
  assumes running: "py_getitem jsonValues ''statusCode'' = Inr (PyStr ''running'')"
      and has: "hasToken self jsonValues w = Some (Inr True, wh)"
      and tok: "py_getitem jsonValues ''token'' = Inr (PyStr t)"
      and ver: "py_getitem jsonValues ''statusVersion'' = Inr v"
      and rem: "remote w (requests w)
                  \<lparr>url = ''https://'' @ host self @ '':'' @ str_int (port self) @ ''/api//get-status'',
                   data = filter (\<lambda>(key, v). truthy v)
                     [(''token'', PyStr t),
                      (''millisecondsTimeout'', PyInt (if waitTime' \<noteq> 0 then waitTime' else waitTime self)),
                      (''lastKnownStatusVersion'', PyStr (py_str v))]\<rparr>
                = Body decodedValues jsonValues'"
      and has': "hasToken self jsonValues' w = Some (Inr has', wh')"
      and cb: "case callbackStatus self of
                 NotCallable \<Rightarrow> True
               | Callable name f \<Rightarrow> (case name of None \<Rightarrow> False | Some _ \<Rightarrow> True) \<and> f jsonValues' = None"
  shows "\<exists>w'. handleToken_while (Suc n) self waitTime' jsonValues w =
               handleToken_while n self waitTime' jsonValues' w'
           \<and> remote w' = remote w
           \<and> requests w' = requests w @
                [\<lparr>url = ''https://'' @ host self @ '':'' @ str_int (port self) @ ''/api//get-status'',
                  data = filter (\<lambda>(key, v). truthy v)
                    [(''token'', PyStr t),
                     (''millisecondsTimeout'', PyInt (if waitTime' \<noteq> 0 then waitTime' else waitTime self)),
                     (''lastKnownStatusVersion'', PyStr (py_str v))]\<rparr>]
           \<and> callbacks w' = callbacks w @
                (case callbackStatus self of NotCallable \<Rightarrow> [] | Callable name f \<Rightarrow> [jsonValues'])"
proof -
  let ?req = "\<lparr>url = ''https://'' @ host self @ '':'' @ str_int (port self) @ ''/api//get-status'',
               data = filter (\<lambda>(key, v). truthy v)
                 [(''token'', PyStr t),
                  (''millisecondsTimeout'', PyInt (if waitTime' \<noteq> 0 then waitTime' else waitTime self)),
                  (''lastKnownStatusVersion'', PyStr (py_str v))]\<rparr>"
  obtain w1 where w1: "log_refreshing self jsonValues w = Some (Inr (), w1)" "log_only w w1"
    using log_refreshing_ok [OF tok] by blast
  then have tr1: "remote w1 = remote w" "requests w1 = requests w" "callbacks w1 = callbacks w"
    by (simp_all add: log_only_def)
  obtain wa where ha: "hasToken self jsonValues w1 = Some (Inr True, wa)"
    using hasToken_any_world [OF has] by blast
  obtain wb where hb: "hasToken self jsonValues' w1 = Some (Inr has', wb)"
    using hasToken_any_world [OF has'] by blast
  have rem1: "remote w1 (requests w1)
                \<lparr>url = ''https://'' @ host self @ '':'' @ str_int (port self) @ ''/api//get-status'',
                 data = filter (\<lambda>(key, v). truthy v)
                   [(''token'', PyStr t),
                    (''millisecondsTimeout'',
                      PyInt (case Some waitTime' of Some x \<Rightarrow> if x \<noteq> 0 then x else waitTime self
                                                  | None \<Rightarrow> waitTime self)),
                    (''lastKnownStatusVersion'', PyStr (py_str v))]\<rparr>
              = Body decodedValues jsonValues'"
    using rem by (simp add: tr1)
  obtain w2 where w2: "GetStatus n self jsonValues (Some waitTime') w1 = Some (Inr jsonValues', w2)"
      "requests w2 = requests w1 @ [?req]" "callbacks w2 = callbacks w1" "remote w2 = remote w1"
    using GetStatus_run [OF ha tok ver rem1 hb, of n] by auto
  obtain w3 where w3: "logprint self 4 [LStr ''__handleToken:'', LVal jsonValues'] w2 = Some (Inr (), w3)"
      "log_only w2 w3"
    by (simp add: logprint_run)
  obtain w4 where w4: "run_callback self ''refreshed'' jsonValues' w3 = Some (Inr (), w4)"
      "remote w4 = remote w3" "requests w4 = requests w3"
      "callbacks w4 = callbacks w3 @
         (case callbackStatus self of NotCallable \<Rightarrow> [] | Callable name f \<Rightarrow> [jsonValues'])"
    using run_callback_returns [OF cb] by blast
  have "handleToken_while (Suc n) self waitTime' jsonValues w =
          handleToken_while n self waitTime' jsonValues' w4"
    by (rule refresh_step [OF running w1(1) w2(1) w3(1) w4(1)])
  moreover have "remote w4 = remote w" "requests w4 = requests w @ [?req]"
      "callbacks w4 = callbacks w @
         (case callbackStatus self of NotCallable \<Rightarrow> [] | Callable name f \<Rightarrow> [jsonValues'])"
    using w2 w3(2) w4 tr1 by (simp_all add: log_only_def)
  ultimately show ?thesis by blast
qed

text \<open>An iteration on the response of version 2 that the remote end answers with the response
  of version 1.\<close>

theorem refresh_accepted_witness:
  "\<exists>w'. handleToken_while (Suc (Suc 0)) (server_Client\<lparr>callbackStatus := Callable (Some ''progress'') (\<lambda>_. None)\<rparr>)
            1000 scenario_refresh1
            (fresh [Body ''{...}'' scenario_initial, Body ''{...}'' scenario_refresh2]) =
          handleToken_while (Suc 0) (server_Client\<lparr>callbackStatus := Callable (Some ''progress'') (\<lambda>_. None)\<rparr>)
            1000 scenario_initial w'
        \<and> requests w' = [\<lparr>url = ''https://127.0.0.1:8463/api//get-status'',
                           data = [(''token'', PyStr ''T1''), (''millisecondsTimeout'', PyInt 1000),
                                   (''lastKnownStatusVersion'', PyStr ''2'')]\<rparr>]
        \<and> callbacks w' = [scenario_initial]"
proof -
  let ?self = "server_Client\<lparr>callbackStatus := Callable (Some ''progress'') (\<lambda>_. None)\<rparr>"
  let ?w = "fresh [Body ''{...}'' scenario_initial, Body ''{...}'' scenario_refresh2]"
  have running: "py_getitem scenario_refresh1 ''statusCode'' = Inr (PyStr ''running'')"
    by (simp add: scenario_defs)
  have has: "hasToken ?self scenario_refresh1 ?w = Some (Inr True, ?w)"
    by (simp add: run_simps server_Client_def scenario_defs)
  have tok: "py_getitem scenario_refresh1 ''token'' = Inr (PyStr ''T1'')"
    by (simp add: scenario_defs)
  have ver: "py_getitem scenario_refresh1 ''statusVersion'' = Inr (PyInt 2)"
    by (simp add: scenario_defs)
  have rem: "remote ?w (requests ?w)
               \<lparr>url = ''https://'' @ host ?self @ '':'' @ str_int (port ?self) @ ''/api//get-status'',
                data = filter (\<lambda>(key, v). truthy v)
                  [(''token'', PyStr ''T1''),
                   (''millisecondsTimeout'', PyInt (if (1000 :: int) \<noteq> 0 then 1000 else waitTime ?self)),
                   (''lastKnownStatusVersion'', PyStr (py_str (PyInt 2)))]\<rparr>
             = Body ''{...}'' scenario_initial"
    by (simp add: fresh_def scripted_def)
  have has': "hasToken ?self scenario_initial ?w = Some (Inr True, ?w)"
    by (simp add: run_simps server_Client_def scenario_defs)
  have cb: "case callbackStatus ?self of
              NotCallable \<Rightarrow> True
            | Callable name f \<Rightarrow> (case name of None \<Rightarrow> False | Some _ \<Rightarrow> True) \<and> f scenario_initial = None"
    by simp
  from refresh_accepted [OF running has tok ver rem has' cb, of "Suc 0"] show ?thesis
    by (auto simp: server_Client_def fresh_def py_str_def str_int_def str_nat.simps)
qed

text \<open>The handler started on the \<open>running\<close> response of version 2, with a first refresh
  that returns version 1 and a second that returns \<open>completed\<close> with version 1 again: the
  handler returns the completed response, and nothing is raised or logged.\<close>

theorem refresh_accepted_counterexample:
  "handleToken (Suc (Suc 0)) server_Client scenario_refresh1 None
     (fresh [Body ''{...}'' scenario_initial,
             Body ''{...}'' (PyDict [(''statusCode'', PyStr ''completed''), (''token'', PyStr ''T1''),
                                     (''statusVersion'', PyInt 1)])]) =
   Some (Inr (PyDict [(''statusCode'', PyStr ''completed''), (''token'', PyStr ''T1''),
                      (''statusVersion'', PyInt 1)]),
         fresh [Body ''{...}'' scenario_initial,
                Body ''{...}'' (PyDict [(''statusCode'', PyStr ''completed''), (''token'', PyStr ''T1''),
                                        (''statusVersion'', PyInt 1)])]
           \<lparr>requests :=
              [\<lparr>url = ''https://127.0.0.1:8463/api//get-status'',
                data = [(''token'', PyStr ''T1''), (''millisecondsTimeout'', PyInt 1000),
                        (''lastKnownStatusVersion'', PyStr ''2'')]\<rparr>,
               \<lparr>url = ''https://127.0.0.1:8463/api//get-status'',
                data = [(''token'', PyStr ''T1''), (''millisecondsTimeout'', PyInt 1000),
                        (''lastKnownStatusVersion'', PyStr ''1'')]\<rparr>]\<rparr>)"
  by (simp add: run_simps server_Client_def scenario_defs)

subsection \<open>The scenario\<close>



end
